theory Spec2Isabelle
  imports Complex_Main
begin

section \<open>Exporter of simulation options to WinX-Ray configuration records\<close>

text \<open>
  A shallow embedding of \<^verbatim>\<open>pymontecarlo/program/winxray/exporter.py\<close>.
  Python floats are idealised as \<^typ>\<open>real\<close>, Python integers are \<^typ>\<open>int\<close>.
  The mutable \<^verbatim>\<open>OptionsFile\<close> object is a record that every exporter
  method takes and returns updated; \<^verbatim>\<open>warnings.warn\<close> appends to a list of messages;
  a raised exception is the left summand of the result.
\<close>

subsection \<open>Errors\<close>

datatype error = ExporterException | KeyError | ZeroDivisionError | ValueError

subsection \<open>Input: the options\<close>

text \<open>
  The attributes that the exporter reads of the beam, of the material of the body and of
  the geometry. \<^verbatim>\<open>composition\<close> is a dictionary from atomic numbers to weight
  fractions, read in its order; \<^verbatim>\<open>absorption_energy_eV[ELECTRON]\<close> is the field
  \<open>absorption_energy_electron_eV\<close>.
\<close>

record GaussianBeam =
  energy_eV :: real
  diameter_m :: real
  origin_m :: "real \<times> real \<times> real"

record Material =
  composition :: "(int \<times> real) list"
  density_kg_m3 :: real
  absorption_energy_electron_eV :: real

record Substrate =
  body_material :: Material
  tilt_rad :: real
  rotation_rad :: real

text \<open>
  What the exporter reads of a delimited detector: its take-off angle, the two bounds
  of its azimuth and its solid angle.
\<close>

record Delimitation =
  takeoffangle_rad :: real
  azimuth_rad :: "real \<times> real"
  solidangle_sr :: real

text \<open>
  The detector classes registered in \<^verbatim>\<open>Exporter.__init__\<close>, with the
  attributes the exporter reads. The three photon detectors are the delimited ones (they
  are built from an elevation and an azimuth range). The last two constructors stand for
  any detector class without a registered exporter method, delimited or not.
\<close>

datatype (discs_sels) detector =
    BackscatteredElectronEnergyDetector (channels: int)
  | BackscatteredElectronPolarAngularDetector (channels: int)
  | PhotonDepthDetector (delim: Delimitation) (channels: int)
  | PhotonIntensityDetector (delim: Delimitation)
  | PhotonSpectrumDetector (delim: Delimitation) (channels: int)
  | ElectronFractionDetector
  | TimeDetector
  | OtherDelimitedDetector (delim: Delimitation)
  | OtherDetector

datatype limit = ShowersLimit (showers: int)

datatype model_type =
    ELASTIC_CROSS_SECTION
  | IONIZATION_CROSS_SECTION
  | IONIZATION_POTENTIAL
  | RANDOM_NUMBER_GENERATOR
  | DIRECTION_COSINE
  | ENERGY_LOSS
  | MASS_ABSORPTION_COEFFICIENT

text \<open>
  A model is a value of one category; \<^verbatim>\<open>ELASTIC_CROSS_SECTION.rutherford\<close>
  is \<open>Model ELASTIC_CROSS_SECTION ''rutherford''\<close>.
\<close>

datatype model = Model model_type string

record Options =
  name :: string
  beam :: GaussianBeam
  geometry :: Substrate
  detectors :: "(string \<times> detector) list"
  limits :: "limit list"
  models :: "model list"

subsection \<open>Output: the constants and the record of the target program\<close>

text \<open>
  The modules of constants of \<^verbatim>\<open>winxraytools.configuration\<close> are not part of
  the sources. Each enumeration holds the constants that the exporter names. Where the
  exporter names a single constant of a module, a second constructor stands for the other
  constants of that module: the field of the record then has more than one value, and a
  write to it can be told from no write.
\<close>

datatype EvPerChannel = TYPE_5 | TYPE_10 | TYPE_20 | TYPE_40

datatype ElectronElasticCrossSection =
    TYPE_MOTTTABULATED
  | TYPE_MOTTTABULATEDLINEAR
  | TYPE_MOTTTABULATEDPOWERLAW
  | TYPE_MOTTTABULATEDCUBICSPLINE
  | TYPE_MOTTPARAMETRIZEDHD
  | TYPE_RUTHERFORD
  | TYPE_RUTHERFORDRELATIVISTIC

datatype IonizationCrossSection = TYPE_CASNATI | IonizationCrossSection_OTHER

datatype IonizationPotential = IonizationPotential_TYPE_JOY_LUO | IonizationPotential_OTHER

datatype RandomNumberGenerator = TYPE_RAN1 | TYPE_RAN2 | TYPE_RAN3 | TYPE_RAN4

datatype DirectionCosine = TYPE_DEMERS | DirectionCosine_OTHER

datatype EnergyLoss = EnergyLoss_TYPE_JOY_LUO | EnergyLoss_OTHER

datatype MassAbsorptionCoefficient = TYPE_HEINRICH | TYPE_HENKE | TYPE_THINH_LEROUX

text \<open>
  Modelled from the spec: the class \<^verbatim>\<open>OptionsFile\<close> of the library
  \<^verbatim>\<open>winxraytools\<close> is not part of the sources. The target configuration
  record is a flat record of named fields; the call \<^verbatim>\<open>wxrops.setX(v)\<close>
  is the update \<open>w\<lparr>X := v\<rparr>\<close>.
\<close>

record OptionsFile =
  ResultsPath :: "string option"
  SaveFile :: bool
  XrayCompute :: bool
  XrayComputeBackground :: bool
  XrayComputeCharacteristic :: bool
  ComputeBSEDistribution :: bool
  ComputeBSEDepth :: bool
  ComputeBSERadial :: bool
  ComputeBSESpatial :: bool
  ComputeBSELateral :: bool
  ComputeBSEEnergy :: bool
  ComputeBSEAngular :: bool
  ComputeSEDistribution :: bool
  ComputeEnergyLossDistribution :: bool
  ComputeEnergyLossDepth :: bool
  ComputeEnergyLossLateral :: bool
  ComputeEnergyLossSpatial :: bool
  ComputeEnergyLossRadial :: bool
  ComputeElectronDistribution :: bool
  ComputeElectronDepth :: bool
  ComputeElectronRadial :: bool
  ComputeElectronSpatial :: bool
  ComputeElectronLateral :: bool
  TOA_deg :: real
  AngleThetaDetector_deg :: real
  AnglePhiDetector_deg :: real
  UserDefineSolidAngle :: bool
  SolidAngle_sr :: real
  MultiEnergy :: bool
  IncidentEnergy_keV :: real
  StartEnergy_keV :: real
  EndEnergy_keV :: real
  StepEnergy_keV :: real
  NbStepEnergy :: int
  BeamDiameter_nm :: real
  Elements :: "int list \<times> real list"
  MinimumElectronEnergy_eV :: real
  NbBSEEnergy :: int
  NbBSEAngular :: int
  NumberFilm :: int
  TypeEVChannel :: EvPerChannel
  NumberChannel :: int
  NbElectron :: int
  TypeElectronElasticCrossSection :: ElectronElasticCrossSection
  TypeIonizationCrossSection :: IonizationCrossSection
  TypeIonisationPotential :: IonizationPotential
  TypeRandomGenerator :: RandomNumberGenerator
  TypeDirectionCosines :: DirectionCosine
  TypeEnergyLoss :: EnergyLoss
  TypeMac :: MassAbsorptionCoefficient


subsection \<open>Python primitives\<close>

text \<open>\<^verbatim>\<open>math.degrees\<close>.\<close>

definition degrees :: "real \<Rightarrow> real" where
  "degrees x = x * (180 / pi)"

text \<open>\<^verbatim>\<open>d[k]\<close> on a dictionary literal: a missing key raises.\<close>

definition getitem :: "('k \<times> 'v) list \<Rightarrow> 'k \<Rightarrow> error + 'v" where
  "getitem d k = (case map_of d k of None \<Rightarrow> Inl KeyError | Some v \<Rightarrow> Inr v)"

text \<open>Sequencing of calls that may raise.\<close>

definition and_then :: "error + 'a \<Rightarrow> ('a \<Rightarrow> error + 'b) \<Rightarrow> error + 'b" where
  "and_then r f = (case r of Inl e \<Rightarrow> Inl e | Inr x \<Rightarrow> f x)"

text \<open>\<^verbatim>\<open>warnings.warn(message, ExporterWarning)\<close>: the message is logged.\<close>

type_synonym warned = "string list"

definition warn :: "string \<Rightarrow> warned \<Rightarrow> warned" where
  "warn message warnings = warnings @ [message]"

subsection \<open>Beam and geometry\<close>

definition beam_gaussian ::
  "Options \<Rightarrow> GaussianBeam \<Rightarrow> OptionsFile \<times> warned \<Rightarrow> error + OptionsFile \<times> warned" where
  "beam_gaussian options b st =
     (case st of (wxrops, warnings) \<Rightarrow>
       let energy_keV = energy_eV b / 1000;
           wxrops = wxrops\<lparr>MultiEnergy := False\<rparr>;
           wxrops = wxrops\<lparr>IncidentEnergy_keV := energy_keV\<rparr>;
           wxrops = wxrops\<lparr>StartEnergy_keV := energy_keV\<rparr>;
           wxrops = wxrops\<lparr>EndEnergy_keV := energy_keV\<rparr>;
           wxrops = wxrops\<lparr>StepEnergy_keV := 1\<rparr>;
           wxrops = wxrops\<lparr>NbStepEnergy := 1\<rparr>;
           wxrops = wxrops\<lparr>BeamDiameter_nm := diameter_m b * 1000000000\<rparr>;
           warnings =
             (if origin_m b \<noteq> (0, 0, 0)
              then warn ''No beam position in WinX-Ray'' warnings else warnings)
       in Inr (wxrops, warnings))"

text \<open>
  Modelled from the spec: the class \<^verbatim>\<open>Substrate\<close> is not part of the
  sources. A substrate has one body, so \<^verbatim>\<open>get_materials()\<close> yields the
  material of that body.
\<close>

definition get_materials :: "Substrate \<Rightarrow> Material list" where
  "get_materials g = [body_material g]"

text \<open>\<^verbatim>\<open>min\<close> over the values that a generator yields; it raises when there
  is none.\<close>

definition minimum :: "real list \<Rightarrow> error + real" where
  "minimum xs = (case xs of [] \<Rightarrow> Inl ValueError | x # rest \<Rightarrow> Inr (fold min rest x))"

definition geometry_substrate ::
  "Options \<Rightarrow> Substrate \<Rightarrow> OptionsFile \<times> warned \<Rightarrow> error + OptionsFile \<times> warned" where
  "geometry_substrate options g st =
     (case st of (wxrops, warnings) \<Rightarrow>
       let material = body_material g;
           zs = map fst (composition material);
           wfs = map snd (composition material);
           wxrops = wxrops\<lparr>Elements := (zs, wfs)\<rparr>;
           warnings = warn ''WinXRay does not support user defined density'' warnings;
           warnings =
             (if tilt_rad (geometry options) \<noteq> 0
              then warn ''WinXRay does not support sample tilt. Use beam tilt instead.''
                     warnings
              else warnings);
           warnings =
             (if rotation_rad (geometry options) \<noteq> 0
              then warn ''WinXRay does not support sample rotation.'' warnings
              else warnings)
       in and_then
            (minimum (map absorption_energy_electron_eV (get_materials (geometry options))))
            (\<lambda>abs_electron_eV.
               Inr (wxrops\<lparr>MinimumElectronEnergy_eV := abs_electron_eV\<rparr>, warnings)))"

subsection \<open>Detectors\<close>

definition detector_backscattered_electron_energy ::
  "Options \<Rightarrow> string \<Rightarrow> detector \<Rightarrow> OptionsFile \<Rightarrow> error + OptionsFile" where
  "detector_backscattered_electron_energy options nm detector wxrops =
     Inr (wxrops\<lparr>ComputeBSEDistribution := True, ComputeBSEEnergy := True,
                   NbBSEEnergy := channels detector\<rparr>)"

definition detector_backscattered_electron_polar_angular ::
  "Options \<Rightarrow> string \<Rightarrow> detector \<Rightarrow> OptionsFile \<Rightarrow> error + OptionsFile" where
  "detector_backscattered_electron_polar_angular options nm detector wxrops =
     Inr (wxrops\<lparr>ComputeBSEDistribution := True, ComputeBSEAngular := True,
                   NbBSEAngular := channels detector\<rparr>)"

definition detector_photondetector ::
  "Options \<Rightarrow> string \<Rightarrow> detector \<Rightarrow> OptionsFile \<Rightarrow> error + OptionsFile" where
  "detector_photondetector options nm detector wxrops =
     Inr (wxrops\<lparr>XrayCompute := True, XrayComputeCharacteristic := True,
                   NumberFilm := channels detector\<rparr>)"

definition detector_photon_intensity ::
  "Options \<Rightarrow> string \<Rightarrow> detector \<Rightarrow> OptionsFile \<Rightarrow> error + OptionsFile" where
  "detector_photon_intensity options nm detector wxrops =
     Inr (wxrops\<lparr>XrayCompute := True, XrayComputeCharacteristic := True\<rparr>)"

text \<open>
  \<^verbatim>\<open>energy_eV / channels\<close> is the true division and raises on a zero channel
  count; \<^verbatim>\<open>energy_eV // 5\<close> is the floor division.
\<close>

definition detector_photon_spectrum ::
  "Options \<Rightarrow> string \<Rightarrow> detector \<Rightarrow> OptionsFile \<Rightarrow> error + OptionsFile" where
  "detector_photon_spectrum options nm detector wxrops =
     (let wxrops = wxrops\<lparr>XrayCompute := True, XrayComputeBackground := True,
                           XrayComputeCharacteristic := True\<rparr>
      in if channels detector = 0 then Inl ZeroDivisionError
         else
           let ev_per_channel = energy_eV (beam options) / of_int (channels detector)
           in if ev_per_channel < 10 then
                Inr (wxrops\<lparr>TypeEVChannel := TYPE_5,
                              NumberChannel := \<lfloor>energy_eV (beam options) / 5\<rfloor>\<rparr>)
              else if ev_per_channel < 20 then
                Inr (wxrops\<lparr>TypeEVChannel := TYPE_10,
                              NumberChannel := \<lfloor>energy_eV (beam options) / 10\<rfloor>\<rparr>)
              else if ev_per_channel < 40 then
                Inr (wxrops\<lparr>TypeEVChannel := TYPE_20,
                              NumberChannel := \<lfloor>energy_eV (beam options) / 20\<rfloor>\<rparr>)
              else
                Inr (wxrops\<lparr>TypeEVChannel := TYPE_40,
                              NumberChannel := \<lfloor>energy_eV (beam options) / 40\<rfloor>\<rparr>))"

definition detector_electron_fraction ::
  "Options \<Rightarrow> string \<Rightarrow> detector \<Rightarrow> OptionsFile \<Rightarrow> error + OptionsFile" where
  "detector_electron_fraction options nm detector wxrops =
     Inr (wxrops\<lparr>ComputeBSEDistribution := True, ComputeBSEEnergy := True\<rparr>)"

definition detector_time ::
  "Options \<Rightarrow> string \<Rightarrow> detector \<Rightarrow> OptionsFile \<Rightarrow> error + OptionsFile" where
  "detector_time options nm detector wxrops = Inr wxrops"

text \<open>
  The table \<^verbatim>\<open>self._detector_exporters\<close> that \<^verbatim>\<open>__init__\<close> fills,
  keyed by the class of the detector.
\<close>

fun detector_exporters ::
  "detector \<Rightarrow> (Options \<Rightarrow> string \<Rightarrow> detector \<Rightarrow> OptionsFile \<Rightarrow> error + OptionsFile) option" where
  "detector_exporters (BackscatteredElectronEnergyDetector c) =
     Some detector_backscattered_electron_energy"
| "detector_exporters (BackscatteredElectronPolarAngularDetector c) =
     Some detector_backscattered_electron_polar_angular"
| "detector_exporters (PhotonDepthDetector dl c) = Some detector_photondetector"
| "detector_exporters (PhotonIntensityDetector dl) = Some detector_photon_intensity"
| "detector_exporters (PhotonSpectrumDetector dl c) = Some detector_photon_spectrum"
| "detector_exporters ElectronFractionDetector = Some detector_electron_fraction"
| "detector_exporters TimeDetector = Some detector_time"
| "detector_exporters (OtherDelimitedDetector dl) = None"
| "detector_exporters OtherDetector = None"

text \<open>
  Modelled from the spec: the method \<^verbatim>\<open>_export_detectors\<close> of the base class
  \<^verbatim>\<open>pymontecarlo.program.exporter.Exporter\<close> is not part of the sources. For
  each detector, in the order of the collection, it calls the method registered for the
  detector's class; unsupported detector kinds are silently ignored.
\<close>

fun Exporter_export_detectors ::
  "Options \<Rightarrow> (string \<times> detector) list \<Rightarrow> OptionsFile \<Rightarrow> error + OptionsFile" where
  "Exporter_export_detectors options [] wxrops = Inr wxrops"
| "Exporter_export_detectors options ((nm, detector) # rest) wxrops =
     (case detector_exporters detector of
        None \<Rightarrow> Exporter_export_detectors options rest wxrops
      | Some method \<Rightarrow>
          and_then (method options nm detector wxrops)
            (Exporter_export_detectors options rest))"

text \<open>\<^verbatim>\<open>isinstance(detector, _DelimitedDetector)\<close>.\<close>

fun is_DelimitedDetector :: "detector \<Rightarrow> bool" where
  "is_DelimitedDetector (PhotonDepthDetector dl c) = True"
| "is_DelimitedDetector (PhotonIntensityDetector dl) = True"
| "is_DelimitedDetector (PhotonSpectrumDetector dl c) = True"
| "is_DelimitedDetector (OtherDelimitedDetector dl) = True"
| "is_DelimitedDetector d = False"

text \<open>\<^verbatim>\<open>options.detectors.iterclass(_DelimitedDetector)\<close>: the entries whose
  detector is delimited, in the order of the collection.\<close>

definition iterclass_DelimitedDetector ::
  "(string \<times> detector) list \<Rightarrow> (string \<times> detector) list" where
  "iterclass_DelimitedDetector ds = filter (\<lambda>(nm, d). is_DelimitedDetector d) ds"

text \<open>
  The override \<^verbatim>\<open>_export_detectors\<close> has three parts, which its comments
  name: deactivate all detectors, perform the detector export (the method of the base
  class), and set the detector position.
\<close>

definition deactivate_all_detectors :: "OptionsFile \<Rightarrow> OptionsFile" where
  "deactivate_all_detectors wxrops =
     wxrops\<lparr>XrayCompute := False, XrayComputeBackground := False,
             XrayComputeCharacteristic := False,
             ComputeBSEDistribution := False, ComputeBSEDepth := False,
             ComputeBSERadial := False, ComputeBSESpatial := False,
             ComputeBSELateral := False, ComputeBSEEnergy := False,
             ComputeBSEAngular := False,
             ComputeSEDistribution := False,
             ComputeEnergyLossDistribution := False, ComputeEnergyLossDepth := False,
             ComputeEnergyLossLateral := False, ComputeEnergyLossSpatial := False,
             ComputeEnergyLossRadial := False,
             ComputeElectronDistribution := False, ComputeElectronDepth := False,
             ComputeElectronRadial := False, ComputeElectronSpatial := False,
             ComputeElectronLateral := False\<rparr>"

text \<open>
  The function \<^verbatim>\<open>equivalent_opening\<close> of
  \<^verbatim>\<open>pymontecarlo.options.detector\<close> is not part of the sources and is a
  parameter. \<^verbatim>\<open>map(equivalent_opening, dets[:-1], dets[1:])\<close> compares each
  detector with the next one; \<^verbatim>\<open>sum(azimuth_rad)\<close> adds the two bounds to 0.
\<close>

definition detector_position ::
  "(detector \<Rightarrow> detector \<Rightarrow> bool) \<Rightarrow> Options \<Rightarrow> OptionsFile \<Rightarrow> error + OptionsFile" where
  "detector_position equivalent_opening options wxrops =
     (let dets = map snd (iterclass_DelimitedDetector (detectors options))
      in if 2 \<le> length dets
            \<and> \<not> list_all (\<lambda>(d1, d2). equivalent_opening d1 d2) (zip (butlast dets) (tl dets))
         then Inl ExporterException
         else if dets \<noteq> [] then
           let toa_deg = degrees (takeoffangle_rad (delim (hd dets)));
               phi_deg = degrees ((0 + fst (azimuth_rad (delim (hd dets)))
                                     + snd (azimuth_rad (delim (hd dets)))) / 2)
           in Inr (wxrops\<lparr>TOA_deg := toa_deg,
                            AngleThetaDetector_deg := 90 - toa_deg,
                            AnglePhiDetector_deg := phi_deg,
                            UserDefineSolidAngle := True,
                            SolidAngle_sr := solidangle_sr (delim (hd dets))\<rparr>)
         else Inr wxrops)"

definition export_detectors ::
  "(detector \<Rightarrow> detector \<Rightarrow> bool) \<Rightarrow> Options \<Rightarrow> OptionsFile \<Rightarrow> error + OptionsFile" where
  "export_detectors equivalent_opening options wxrops =
     and_then
       (Exporter_export_detectors options (detectors options)
          (deactivate_all_detectors wxrops))
       (detector_position equivalent_opening options)"

subsection \<open>Limits\<close>

definition limit_showers :: "Options \<Rightarrow> limit \<Rightarrow> OptionsFile \<Rightarrow> error + OptionsFile" where
  "limit_showers options limit wxrops = Inr (wxrops\<lparr>NbElectron := showers limit\<rparr>)"

subsection \<open>Models\<close>

text \<open>The dictionary literals \<^verbatim>\<open>types\<close> of the seven model methods.\<close>

definition elastic_cross_section_types :: "(model \<times> ElectronElasticCrossSection) list" where
  "elastic_cross_section_types =
     [(Model ELASTIC_CROSS_SECTION ''mott_czyzewski1990'', TYPE_MOTTTABULATED),
      (Model ELASTIC_CROSS_SECTION ''mott_czyzewski1990_linear'', TYPE_MOTTTABULATEDLINEAR),
      (Model ELASTIC_CROSS_SECTION ''mott_czyzewski1990_powerlaw'', TYPE_MOTTTABULATEDPOWERLAW),
      (Model ELASTIC_CROSS_SECTION ''mott_czyzewski1990_cubicspline'',
         TYPE_MOTTTABULATEDCUBICSPLINE),
      (Model ELASTIC_CROSS_SECTION ''mott_demers'', TYPE_MOTTPARAMETRIZEDHD),
      (Model ELASTIC_CROSS_SECTION ''rutherford'', TYPE_RUTHERFORD),
      (Model ELASTIC_CROSS_SECTION ''rutherford_relativistic'', TYPE_RUTHERFORDRELATIVISTIC)]"

definition ionization_cross_section_types :: "(model \<times> IonizationCrossSection) list" where
  "ionization_cross_section_types =
     [(Model IONIZATION_CROSS_SECTION ''casnati1982'', TYPE_CASNATI)]"

definition ionization_potential_types :: "(model \<times> IonizationPotential) list" where
  "ionization_potential_types =
     [(Model IONIZATION_POTENTIAL ''joy_luo1989'', IonizationPotential_TYPE_JOY_LUO)]"

definition random_number_generator_types :: "(model \<times> RandomNumberGenerator) list" where
  "random_number_generator_types =
     [(Model RANDOM_NUMBER_GENERATOR ''press1966_rand1'', TYPE_RAN1),
      (Model RANDOM_NUMBER_GENERATOR ''press1966_rand2'', TYPE_RAN2),
      (Model RANDOM_NUMBER_GENERATOR ''press1966_rand3'', TYPE_RAN3),
      (Model RANDOM_NUMBER_GENERATOR ''press1966_rand4'', TYPE_RAN4)]"

definition direction_cosine_types :: "(model \<times> DirectionCosine) list" where
  "direction_cosine_types = [(Model DIRECTION_COSINE ''demers2000'', TYPE_DEMERS)]"

definition energy_loss_types :: "(model \<times> EnergyLoss) list" where
  "energy_loss_types = [(Model ENERGY_LOSS ''joy_luo1989'', EnergyLoss_TYPE_JOY_LUO)]"

definition mass_absorption_coefficient_types ::
  "(model \<times> MassAbsorptionCoefficient) list" where
  "mass_absorption_coefficient_types =
     [(Model MASS_ABSORPTION_COEFFICIENT ''heinrich_ixcom11'', TYPE_HEINRICH),
      (Model MASS_ABSORPTION_COEFFICIENT ''henke1993'', TYPE_HENKE),
      (Model MASS_ABSORPTION_COEFFICIENT ''thinh_leroux1979'', TYPE_THINH_LEROUX)]"

definition model_elastic_cross_section ::
  "Options \<Rightarrow> model \<Rightarrow> OptionsFile \<Rightarrow> error + OptionsFile" where
  "model_elastic_cross_section options m wxrops =
     and_then (getitem elastic_cross_section_types m)
       (\<lambda>t. Inr (wxrops\<lparr>TypeElectronElasticCrossSection := t\<rparr>))"

definition model_ionization_cross_section ::
  "Options \<Rightarrow> model \<Rightarrow> OptionsFile \<Rightarrow> error + OptionsFile" where
  "model_ionization_cross_section options m wxrops =
     and_then (getitem ionization_cross_section_types m)
       (\<lambda>t. Inr (wxrops\<lparr>TypeIonizationCrossSection := t\<rparr>))"

definition model_ionization_potential ::
  "Options \<Rightarrow> model \<Rightarrow> OptionsFile \<Rightarrow> error + OptionsFile" where
  "model_ionization_potential options m wxrops =
     and_then (getitem ionization_potential_types m)
       (\<lambda>t. Inr (wxrops\<lparr>TypeIonisationPotential := t\<rparr>))"

definition model_random_number_generator ::
  "Options \<Rightarrow> model \<Rightarrow> OptionsFile \<Rightarrow> error + OptionsFile" where
  "model_random_number_generator options m wxrops =
     and_then (getitem random_number_generator_types m)
       (\<lambda>t. Inr (wxrops\<lparr>TypeRandomGenerator := t\<rparr>))"

definition model_direction_cosine ::
  "Options \<Rightarrow> model \<Rightarrow> OptionsFile \<Rightarrow> error + OptionsFile" where
  "model_direction_cosine options m wxrops =
     and_then (getitem direction_cosine_types m)
       (\<lambda>t. Inr (wxrops\<lparr>TypeDirectionCosines := t\<rparr>))"

definition model_energy_loss ::
  "Options \<Rightarrow> model \<Rightarrow> OptionsFile \<Rightarrow> error + OptionsFile" where
  "model_energy_loss options m wxrops =
     and_then (getitem energy_loss_types m)
       (\<lambda>t. Inr (wxrops\<lparr>TypeEnergyLoss := t\<rparr>))"

definition model_mass_absorption_coefficient ::
  "Options \<Rightarrow> model \<Rightarrow> OptionsFile \<Rightarrow> error + OptionsFile" where
  "model_mass_absorption_coefficient options m wxrops =
     and_then (getitem mass_absorption_coefficient_types m)
       (\<lambda>t. Inr (wxrops\<lparr>TypeMac := t\<rparr>))"

text \<open>The table \<^verbatim>\<open>self._model_exporters\<close>, keyed by the category of the model.\<close>

fun model_exporters ::
  "model_type \<Rightarrow> Options \<Rightarrow> model \<Rightarrow> OptionsFile \<Rightarrow> error + OptionsFile" where
  "model_exporters ELASTIC_CROSS_SECTION = model_elastic_cross_section"
| "model_exporters IONIZATION_CROSS_SECTION = model_ionization_cross_section"
| "model_exporters IONIZATION_POTENTIAL = model_ionization_potential"
| "model_exporters RANDOM_NUMBER_GENERATOR = model_random_number_generator"
| "model_exporters DIRECTION_COSINE = model_direction_cosine"
| "model_exporters ENERGY_LOSS = model_energy_loss"
| "model_exporters MASS_ABSORPTION_COEFFICIENT = model_mass_absorption_coefficient"

subsection \<open>The base class\<close>

text \<open>
  Modelled from the spec: the base class \<^verbatim>\<open>pymontecarlo.program.exporter.Exporter\<close>
  is not part of the sources. Its method \<^verbatim>\<open>_run_exporters\<close> exports the parts
  of the options in the order in which the spec lists them: beam, geometry, detectors,
  limits, models. Each part goes to the method registered for its class (for a model,
  its category); \<^verbatim>\<open>__init__\<close> registers one beam class, one geometry class,
  one limit class and the seven model categories, and the options hold values of these.
\<close>

definition export_beam :: "Options \<Rightarrow> OptionsFile \<times> warned \<Rightarrow> error + OptionsFile \<times> warned" where
  "export_beam options st = beam_gaussian options (beam options) st"

definition export_geometry ::
  "Options \<Rightarrow> OptionsFile \<times> warned \<Rightarrow> error + OptionsFile \<times> warned" where
  "export_geometry options st = geometry_substrate options (geometry options) st"

fun export_limits :: "Options \<Rightarrow> limit list \<Rightarrow> OptionsFile \<Rightarrow> error + OptionsFile" where
  "export_limits options [] wxrops = Inr wxrops"
| "export_limits options (limit # rest) wxrops =
     and_then (limit_showers options limit wxrops) (export_limits options rest)"

fun export_models :: "Options \<Rightarrow> model list \<Rightarrow> OptionsFile \<Rightarrow> error + OptionsFile" where
  "export_models options [] wxrops = Inr wxrops"
| "export_models options (Model ty nm # rest) wxrops =
     and_then (model_exporters ty options (Model ty nm) wxrops) (export_models options rest)"

definition run_exporters ::
  "(detector \<Rightarrow> detector \<Rightarrow> bool) \<Rightarrow> Options \<Rightarrow> OptionsFile \<times> warned
     \<Rightarrow> error + OptionsFile \<times> warned" where
  "run_exporters equivalent_opening options st =
     and_then (export_beam options st) (\<lambda>st.
     and_then (export_geometry options st) (\<lambda>(wxrops, warnings).
     and_then (export_detectors equivalent_opening options wxrops) (\<lambda>wxrops.
     and_then (export_limits options (limits options) wxrops) (\<lambda>wxrops.
     and_then (export_models options (models options) wxrops) (\<lambda>wxrops.
     Inr (wxrops, warnings))))))"

subsection \<open>The export\<close>

text \<open>
  \<^verbatim>\<open>export_wxroptions\<close>. The fresh \<^verbatim>\<open>OptionsFile()\<close>, whose defaults
  are the library's, is a parameter. The result carries the warnings of the call.
\<close>

definition export_wxroptions ::
  "OptionsFile \<Rightarrow> (detector \<Rightarrow> detector \<Rightarrow> bool) \<Rightarrow> Options \<Rightarrow> string option
     \<Rightarrow> error + OptionsFile \<times> warned" where
  "export_wxroptions new_OptionsFile equivalent_opening options dirpath =
     (let wxrops = new_OptionsFile;
          wxrops = (case dirpath of None \<Rightarrow> wxrops
                    | Some p \<Rightarrow> wxrops\<lparr>ResultsPath := Some p\<rparr>);
          wxrops = wxrops\<lparr>SaveFile := True\<rparr>
      in run_exporters equivalent_opening options (wxrops, []))"

text \<open>
  \<^verbatim>\<open>_export\<close>. The file system is the list of the files written so far, each
  with its path; \<^verbatim>\<open>wxrops.write(filepath)\<close> adds one.
  \<^verbatim>\<open>os.path.join\<close> depends on the platform and is a parameter.
\<close>

definition export ::
  "(string \<Rightarrow> string \<Rightarrow> string) \<Rightarrow> OptionsFile \<Rightarrow> (detector \<Rightarrow> detector \<Rightarrow> bool)
     \<Rightarrow> Options \<Rightarrow> string \<Rightarrow> (string \<times> OptionsFile) list
     \<Rightarrow> error + string \<times> (string \<times> OptionsFile) list \<times> warned" where
  "export os_path_join new_OptionsFile equivalent_opening options dirpath files =
     and_then (export_wxroptions new_OptionsFile equivalent_opening options (Some dirpath))
       (\<lambda>(wxrops, warnings).
          let filepath = os_path_join dirpath (name options @ ''.wxc'')
          in Inr (filepath, files @ [(filepath, wxrops)], warnings))"


subsection \<open>Example inputs\<close>

text \<open>
  Concrete inputs on which the theorems below are exercised: a fresh record, a detector
  opening, and options in the style of the test cases of the repository.
\<close>

definition example_OptionsFile :: OptionsFile where
  "example_OptionsFile =
     \<lparr>ResultsPath = None, SaveFile = False,
      XrayCompute = True, XrayComputeBackground = True, XrayComputeCharacteristic = True,
      ComputeBSEDistribution = True, ComputeBSEDepth = True, ComputeBSERadial = True,
      ComputeBSESpatial = True, ComputeBSELateral = True, ComputeBSEEnergy = True,
      ComputeBSEAngular = True, ComputeSEDistribution = True,
      ComputeEnergyLossDistribution = True, ComputeEnergyLossDepth = True,
      ComputeEnergyLossLateral = True, ComputeEnergyLossSpatial = True,
      ComputeEnergyLossRadial = True, ComputeElectronDistribution = True,
      ComputeElectronDepth = True, ComputeElectronRadial = True,
      ComputeElectronSpatial = True, ComputeElectronLateral = True,
      TOA_deg = 40, AngleThetaDetector_deg = 50, AnglePhiDetector_deg = 90,
      UserDefineSolidAngle = False, SolidAngle_sr = 0,
      MultiEnergy = True, IncidentEnergy_keV = 10, StartEnergy_keV = 10,
      EndEnergy_keV = 30, StepEnergy_keV = 5, NbStepEnergy = 4, BeamDiameter_nm = 10,
      Elements = ([], []), MinimumElectronEnergy_eV = 50,
      NbBSEEnergy = 100, NbBSEAngular = 100, NumberFilm = 128,
      TypeEVChannel = TYPE_5, NumberChannel = 1024, NbElectron = 1000,
      TypeElectronElasticCrossSection = TYPE_MOTTTABULATED,
      TypeIonizationCrossSection = IonizationCrossSection_OTHER,
      TypeIonisationPotential = IonizationPotential_OTHER,
      TypeRandomGenerator = TYPE_RAN3, TypeDirectionCosines = DirectionCosine_OTHER,
      TypeEnergyLoss = EnergyLoss_OTHER, TypeMac = TYPE_HEINRICH\<rparr>"

definition example_opening :: Delimitation where
  "example_opening = \<lparr>takeoffangle_rad = pi / 4, azimuth_rad = (0, pi), solidangle_sr = 2\<rparr>"

definition example_Options :: Options where
  "example_Options =
     \<lparr>name = ''Test'',
      beam = \<lparr>energy_eV = 1234, diameter_m = 1 / 100000000, origin_m = (0, 0, 0)\<rparr>,
      geometry =
        \<lparr>body_material =
           \<lparr>composition = [(29, 1)], density_kg_m3 = 8960,
            absorption_energy_electron_eV = 50\<rparr>,
         tilt_rad = 0, rotation_rad = 0\<rparr>,
      detectors =
        [(''bse'', BackscatteredElectronEnergyDetector 1000),
         (''prz'', PhotonDepthDetector example_opening 1000),
         (''xray'', PhotonIntensityDetector example_opening)],
      limits = [ShowersLimit 5678],
      models = [Model RANDOM_NUMBER_GENERATOR ''press1966_rand1'']\<rparr>"

text \<open>Two detectors have an equivalent opening when their openings match exactly.\<close>

definition same_opening :: "detector \<Rightarrow> detector \<Rightarrow> bool" where
  "same_opening d1 d2 = (delim d1 = delim d2)"

text \<open>The POSIX reading of \<^verbatim>\<open>os.path.join\<close> for a relative file name.\<close>

definition posix_join :: "string \<Rightarrow> string \<Rightarrow> string" where
  "posix_join dirpath filename =
     (if dirpath = [] \<or> last dirpath = CHR ''/'' then dirpath @ filename
      else dirpath @ ''/'' @ filename)"


subsection \<open>Conditions on the input and auxiliary notions\<close>

text \<open>
  A photon spectrum detector with zero channels makes the export divide by zero; the
  theorems on the outcome of the detector export are about the other inputs.
\<close>

fun nonzero_channels :: "detector \<Rightarrow> bool" where
  "nonzero_channels (PhotonSpectrumDetector dl c) = (c \<noteq> 0)"
| "nonzero_channels d = True"

text \<open>The models that have an entry in the dictionary of their category.\<close>

definition supported_models :: "model list" where
  "supported_models =
     map fst elastic_cross_section_types @ map fst ionization_cross_section_types
     @ map fst ionization_potential_types @ map fst random_number_generator_types
     @ map fst direction_cosine_types @ map fst energy_loss_types
     @ map fst mass_absorption_coefficient_types"

text \<open>
  Two records agree outside the fields that a group of methods writes when they are equal
  once these fields are overwritten with fixed values.
\<close>

definition clear_detector_fields :: "OptionsFile \<Rightarrow> OptionsFile" where
  "clear_detector_fields w =
     w\<lparr>XrayCompute := False, XrayComputeBackground := False,
       XrayComputeCharacteristic := False, ComputeBSEDistribution := False,
       ComputeBSEEnergy := False, ComputeBSEAngular := False, NbBSEEnergy := 0,
       NbBSEAngular := 0, NumberFilm := 0, TypeEVChannel := TYPE_5, NumberChannel := 0\<rparr>"

definition clear_model_fields :: "OptionsFile \<Rightarrow> OptionsFile" where
  "clear_model_fields w =
     w\<lparr>TypeElectronElasticCrossSection := TYPE_MOTTTABULATED,
       TypeIonizationCrossSection := TYPE_CASNATI,
       TypeIonisationPotential := IonizationPotential_TYPE_JOY_LUO,
       TypeRandomGenerator := TYPE_RAN1, TypeDirectionCosines := TYPE_DEMERS,
       TypeEnergyLoss := EnergyLoss_TYPE_JOY_LUO, TypeMac := TYPE_HEINRICH\<rparr>"

section \<open>Properties\<close>

subsection \<open>Sequencing\<close>

lemma and_then_simps [simp]:
  "and_then (Inr x) f = f x" "and_then (Inl e) f = Inl e"
  by (simp_all add: and_then_def)

lemma and_then_eq_Inr: "and_then r f = Inr y \<longleftrightarrow> (\<exists>x. r = Inr x \<and> f x = Inr y)"
  by (cases r) simp_all

subsection \<open>The dispatch over the detectors\<close>

lemmas detector_method_defs =
  detector_backscattered_electron_energy_def detector_backscattered_electron_polar_angular_def
  detector_photondetector_def detector_photon_intensity_def detector_photon_spectrum_def
  detector_electron_fraction_def detector_time_def

lemma detector_method_frame:
  assumes "detector_exporters d = Some exporter" and "exporter options nm d w = Inr w'"
  shows "clear_detector_fields w' = clear_detector_fields w"
  using assms
  by (cases d)
     (auto simp: detector_method_defs clear_detector_fields_def Let_def split: if_splits)

lemma Exporter_export_detectors_frame:
  assumes "Exporter_export_detectors options ds w = Inr w'"
  shows "clear_detector_fields w' = clear_detector_fields w"
  using assms
proof (induction ds arbitrary: w)
  case Nil
  then show ?case by simp
next
  case (Cons a ds)
  obtain nm d where a: "a = (nm, d)" by (cases a)
  show ?case
  proof (cases "detector_exporters d")
    case None
    with Cons a show ?thesis by simp
  next
    case (Some exporter)
    with Cons.prems a obtain w1 where m: "exporter options nm d w = Inr w1"
      and r: "Exporter_export_detectors options ds w1 = Inr w'"
      by (auto simp: and_then_eq_Inr)
    from detector_method_frame[OF Some m] Cons.IH[OF r] show ?thesis
      by simp
  qed
qed

lemma Exporter_export_detectors_succeeds:
  assumes "list_all (\<lambda>(nm, d). nonzero_channels d) ds"
  shows "\<exists>w'. Exporter_export_detectors options ds w = Inr w'"
  using assms
proof (induction ds arbitrary: w)
  case Nil
  then show ?case by simp
next
  case (Cons a ds)
  obtain nm d where a: "a = (nm, d)" by (cases a)
  from Cons.prems a have d: "nonzero_channels d"
    and rest: "list_all (\<lambda>(nm, d). nonzero_channels d) ds"
    by simp_all
  show ?case
  proof (cases "detector_exporters d")
    case None
    with Cons.IH[OF rest] a show ?thesis by simp
  next
    case (Some exporter)
    with d have "\<exists>w1. exporter options nm d w = Inr w1"
      by (cases d) (auto simp: detector_method_defs Let_def)
    then obtain w1 where "exporter options nm d w = Inr w1" ..
    with Cons.IH[OF rest, of w1] a Some show ?thesis by simp
  qed
qed

subsection \<open>Neighbouring pairs and all pairs\<close>



subsection \<open>Channel width of a photon spectrum detector\<close>

text \<open>
  C4. For a photon spectrum detector with a channel count \<open>c\<close> other than zero and a beam
  energy \<open>e\<close> in eV, the export succeeds, and the energy per channel \<open>e / c\<close> selects the
  channel width and the channel count: below 10 the 5 eV type with \<open>e // 5\<close> channels,
  from 10 and below 20 the 10 eV type with \<open>e // 10\<close> channels, from 20 and below 40 the
  20 eV type with \<open>e // 20\<close> channels, otherwise the 40 eV type with \<open>e // 40\<close> channels.
\<close>

theorem photon_spectrum_channel_width:
  assumes "channels detector \<noteq> 0"
  shows "\<exists>w. detector_photon_spectrum options nm detector wxrops = Inr w
    \<and> (energy_eV (beam options) / of_int (channels detector) < 10 \<longrightarrow>
          TypeEVChannel w = TYPE_5 \<and> NumberChannel w = \<lfloor>energy_eV (beam options) / 5\<rfloor>)
    \<and> (10 \<le> energy_eV (beam options) / of_int (channels detector)
        \<and> energy_eV (beam options) / of_int (channels detector) < 20 \<longrightarrow>
          TypeEVChannel w = TYPE_10 \<and> NumberChannel w = \<lfloor>energy_eV (beam options) / 10\<rfloor>)
    \<and> (20 \<le> energy_eV (beam options) / of_int (channels detector)
        \<and> energy_eV (beam options) / of_int (channels detector) < 40 \<longrightarrow>
          TypeEVChannel w = TYPE_20 \<and> NumberChannel w = \<lfloor>energy_eV (beam options) / 20\<rfloor>)
    \<and> (40 \<le> energy_eV (beam options) / of_int (channels detector) \<longrightarrow>
          TypeEVChannel w = TYPE_40 \<and> NumberChannel w = \<lfloor>energy_eV (beam options) / 40\<rfloor>)"
  using assms by (simp add: detector_photon_spectrum_def Let_def)

text \<open>At 1234 eV and 100 channels the energy per channel is 12.34 eV: the 10 eV type,
  123 channels.\<close>

theorem photon_spectrum_channel_width_witness:
  "channels (PhotonSpectrumDetector example_opening 100) \<noteq> 0 \<and>
   (\<exists>w. detector_photon_spectrum example_Options ''spectrum''
           (PhotonSpectrumDetector example_opening 100) example_OptionsFile = Inr w
        \<and> TypeEVChannel w = TYPE_10 \<and> NumberChannel w = 123)"
  using photon_spectrum_channel_width
    [of "PhotonSpectrumDetector example_opening 100" example_Options "''spectrum''"
        example_OptionsFile]
  by (simp add: example_Options_def)


subsection \<open>The conflict of openings\<close>



subsection \<open>The compute flags\<close>

lemma Exporter_export_detectors_flags:
  assumes "Exporter_export_detectors options ds w = Inr w'"
  shows "(XrayCompute w' \<longleftrightarrow> XrayCompute w \<or>
            (\<exists>d \<in> snd ` set ds. is_PhotonDepthDetector d \<or> is_PhotonIntensityDetector d
                \<or> is_PhotonSpectrumDetector d))
       \<and> (XrayComputeBackground w' \<longleftrightarrow> XrayComputeBackground w \<or>
            (\<exists>d \<in> snd ` set ds. is_PhotonSpectrumDetector d))
       \<and> (XrayComputeCharacteristic w' \<longleftrightarrow> XrayComputeCharacteristic w \<or>
            (\<exists>d \<in> snd ` set ds. is_PhotonDepthDetector d \<or> is_PhotonIntensityDetector d
                \<or> is_PhotonSpectrumDetector d))
       \<and> (ComputeBSEDistribution w' \<longleftrightarrow> ComputeBSEDistribution w \<or>
            (\<exists>d \<in> snd ` set ds. is_BackscatteredElectronEnergyDetector d
                \<or> is_BackscatteredElectronPolarAngularDetector d
                \<or> d = ElectronFractionDetector))
       \<and> (ComputeBSEEnergy w' \<longleftrightarrow> ComputeBSEEnergy w \<or>
            (\<exists>d \<in> snd ` set ds. is_BackscatteredElectronEnergyDetector d
                \<or> d = ElectronFractionDetector))
       \<and> (ComputeBSEAngular w' \<longleftrightarrow> ComputeBSEAngular w \<or>
            (\<exists>d \<in> snd ` set ds. is_BackscatteredElectronPolarAngularDetector d))"
  using assms
proof (induction ds arbitrary: w)
  case Nil
  then show ?case by simp
next
  case (Cons a ds)
  obtain nm d where a: "a = (nm, d)" by (cases a)
  show ?case
  proof (cases d)
    case (BackscatteredElectronEnergyDetector c)
    with Cons.prems a have "Exporter_export_detectors options ds
        (w\<lparr>ComputeBSEDistribution := True, ComputeBSEEnergy := True, NbBSEEnergy := c\<rparr>) = Inr w'"
      by (simp add: detector_method_defs)
    from Cons.IH[OF this] a BackscatteredElectronEnergyDetector show ?thesis by simp
  next
    case (BackscatteredElectronPolarAngularDetector c)
    with Cons.prems a have "Exporter_export_detectors options ds
        (w\<lparr>ComputeBSEDistribution := True, ComputeBSEAngular := True, NbBSEAngular := c\<rparr>) = Inr w'"
      by (simp add: detector_method_defs)
    from Cons.IH[OF this] a BackscatteredElectronPolarAngularDetector show ?thesis by simp
  next
    case (PhotonDepthDetector dl c)
    with Cons.prems a have "Exporter_export_detectors options ds
        (w\<lparr>XrayCompute := True, XrayComputeCharacteristic := True, NumberFilm := c\<rparr>) = Inr w'"
      by (simp add: detector_method_defs)
    from Cons.IH[OF this] a PhotonDepthDetector show ?thesis by simp
  next
    case (PhotonIntensityDetector dl)
    with Cons.prems a have "Exporter_export_detectors options ds
        (w\<lparr>XrayCompute := True, XrayComputeCharacteristic := True\<rparr>) = Inr w'"
      by (simp add: detector_method_defs)
    from Cons.IH[OF this] a PhotonIntensityDetector show ?thesis by simp
  next
    case (PhotonSpectrumDetector dl c)
    with Cons.prems a obtain w1 where
      m: "detector_photon_spectrum options nm (PhotonSpectrumDetector dl c) w = Inr w1"
      and r: "Exporter_export_detectors options ds w1 = Inr w'"
      by (auto simp: and_then_eq_Inr)
    from m have "XrayCompute w1 \<and> XrayComputeBackground w1 \<and> XrayComputeCharacteristic w1
       \<and> ComputeBSEDistribution w1 = ComputeBSEDistribution w
       \<and> ComputeBSEEnergy w1 = ComputeBSEEnergy w
       \<and> ComputeBSEAngular w1 = ComputeBSEAngular w"
      by (auto simp: detector_photon_spectrum_def Let_def split: if_splits)
    with Cons.IH[OF r] a PhotonSpectrumDetector show ?thesis by simp
  next
    case ElectronFractionDetector
    with Cons.prems a have "Exporter_export_detectors options ds
        (w\<lparr>ComputeBSEDistribution := True, ComputeBSEEnergy := True\<rparr>) = Inr w'"
      by (simp add: detector_method_defs)
    from Cons.IH[OF this] a ElectronFractionDetector show ?thesis by simp
  next
    case TimeDetector
    with Cons.prems a have "Exporter_export_detectors options ds w = Inr w'"
      by (simp add: detector_method_defs)
    from Cons.IH[OF this] a TimeDetector show ?thesis by simp
  next
    case (OtherDelimitedDetector dl)
    with Cons.prems a have "Exporter_export_detectors options ds w = Inr w'"
      by simp
    from Cons.IH[OF this] a OtherDelimitedDetector show ?thesis by simp
  next
    case OtherDetector
    with Cons.prems a have "Exporter_export_detectors options ds w = Inr w'"
      by simp
    from Cons.IH[OF this] a OtherDetector show ?thesis by simp
  qed
qed

lemma Exporter_export_detectors_other_flags:
  assumes "Exporter_export_detectors options ds w = Inr w'"
  shows "ComputeBSEDepth w' = ComputeBSEDepth w"
    "ComputeBSERadial w' = ComputeBSERadial w"
    "ComputeBSESpatial w' = ComputeBSESpatial w"
    "ComputeBSELateral w' = ComputeBSELateral w"
    "ComputeSEDistribution w' = ComputeSEDistribution w"
    "ComputeEnergyLossDistribution w' = ComputeEnergyLossDistribution w"
    "ComputeEnergyLossDepth w' = ComputeEnergyLossDepth w"
    "ComputeEnergyLossLateral w' = ComputeEnergyLossLateral w"
    "ComputeEnergyLossSpatial w' = ComputeEnergyLossSpatial w"
    "ComputeEnergyLossRadial w' = ComputeEnergyLossRadial w"
    "ComputeElectronDistribution w' = ComputeElectronDistribution w"
    "ComputeElectronDepth w' = ComputeElectronDepth w"
    "ComputeElectronRadial w' = ComputeElectronRadial w"
    "ComputeElectronSpatial w' = ComputeElectronSpatial w"
    "ComputeElectronLateral w' = ComputeElectronLateral w"
proof -
  note f = Exporter_export_detectors_frame[OF assms]
  show "ComputeBSEDepth w' = ComputeBSEDepth w"
    using arg_cong[OF f, of ComputeBSEDepth] by (simp add: clear_detector_fields_def)
  show "ComputeBSERadial w' = ComputeBSERadial w"
    using arg_cong[OF f, of ComputeBSERadial] by (simp add: clear_detector_fields_def)
  show "ComputeBSESpatial w' = ComputeBSESpatial w"
    using arg_cong[OF f, of ComputeBSESpatial] by (simp add: clear_detector_fields_def)
  show "ComputeBSELateral w' = ComputeBSELateral w"
    using arg_cong[OF f, of ComputeBSELateral] by (simp add: clear_detector_fields_def)
  show "ComputeSEDistribution w' = ComputeSEDistribution w"
    using arg_cong[OF f, of ComputeSEDistribution] by (simp add: clear_detector_fields_def)
  show "ComputeEnergyLossDistribution w' = ComputeEnergyLossDistribution w"
    using arg_cong[OF f, of ComputeEnergyLossDistribution]
    by (simp add: clear_detector_fields_def)
  show "ComputeEnergyLossDepth w' = ComputeEnergyLossDepth w"
    using arg_cong[OF f, of ComputeEnergyLossDepth] by (simp add: clear_detector_fields_def)
  show "ComputeEnergyLossLateral w' = ComputeEnergyLossLateral w"
    using arg_cong[OF f, of ComputeEnergyLossLateral] by (simp add: clear_detector_fields_def)
  show "ComputeEnergyLossSpatial w' = ComputeEnergyLossSpatial w"
    using arg_cong[OF f, of ComputeEnergyLossSpatial] by (simp add: clear_detector_fields_def)
  show "ComputeEnergyLossRadial w' = ComputeEnergyLossRadial w"
    using arg_cong[OF f, of ComputeEnergyLossRadial] by (simp add: clear_detector_fields_def)
  show "ComputeElectronDistribution w' = ComputeElectronDistribution w"
    using arg_cong[OF f, of ComputeElectronDistribution]
    by (simp add: clear_detector_fields_def)
  show "ComputeElectronDepth w' = ComputeElectronDepth w"
    using arg_cong[OF f, of ComputeElectronDepth] by (simp add: clear_detector_fields_def)
  show "ComputeElectronRadial w' = ComputeElectronRadial w"
    using arg_cong[OF f, of ComputeElectronRadial] by (simp add: clear_detector_fields_def)
  show "ComputeElectronSpatial w' = ComputeElectronSpatial w"
    using arg_cong[OF f, of ComputeElectronSpatial] by (simp add: clear_detector_fields_def)
  show "ComputeElectronLateral w' = ComputeElectronLateral w"
    using arg_cong[OF f, of ComputeElectronLateral] by (simp add: clear_detector_fields_def)
qed

lemma detector_position_Inr:
  assumes "detector_position eqv options w1 = Inr w"
  shows "w = w1 \<or>
     w = w1\<lparr>TOA_deg :=
              degrees (takeoffangle_rad
                (delim (hd (map snd (iterclass_DelimitedDetector (detectors options)))))),
            AngleThetaDetector_deg :=
              90 - degrees (takeoffangle_rad
                (delim (hd (map snd (iterclass_DelimitedDetector (detectors options)))))),
            AnglePhiDetector_deg :=
              degrees ((0
                + fst (azimuth_rad
                    (delim (hd (map snd (iterclass_DelimitedDetector (detectors options))))))
                + snd (azimuth_rad
                    (delim (hd (map snd (iterclass_DelimitedDetector (detectors options)))))))
                / 2),
            UserDefineSolidAngle := True,
            SolidAngle_sr :=
              solidangle_sr
                (delim (hd (map snd (iterclass_DelimitedDetector (detectors options)))))\<rparr>"
proof (cases "map snd (iterclass_DelimitedDetector (detectors options)) = []")
  case True
  with assms show ?thesis by (simp add: detector_position_def)
next
  case False
  with assms show ?thesis
    by (simp add: detector_position_def Let_def split: if_splits)
qed

lemma export_detectors_Inr:
  assumes "export_detectors eqv options wxrops = Inr w"
  obtains w1 where
    "Exporter_export_detectors options (detectors options) (deactivate_all_detectors wxrops)
       = Inr w1"
    and "detector_position eqv options w1 = Inr w"
  using assms unfolding export_detectors_def and_then_eq_Inr by blast

lemma and_then_eq_Inl:
  "and_then r f = Inl e \<longleftrightarrow> r = Inl e \<or> (\<exists>x. r = Inr x \<and> f x = Inl e)"
  by (cases r) simp_all

lemma Exporter_export_detectors_Inl:
  assumes "Exporter_export_detectors options ds w = Inl e"
  shows "e = ZeroDivisionError"
  using assms
proof (induction ds arbitrary: w)
  case Nil
  then show ?case by simp
next
  case (Cons a ds)
  obtain nm d where a: "a = (nm, d)" by (cases a)
  show ?case
  proof (cases "detector_exporters d")
    case None
    with Cons a show ?thesis by simp
  next
    case (Some exporter)
    with Cons.prems a consider "exporter options nm d w = Inl e"
      | w1 where "Exporter_export_detectors options ds w1 = Inl e"
      by (auto simp: and_then_eq_Inl)
    then show ?thesis
    proof cases
      case 1
      with Some show ?thesis
        by (cases d) (auto simp: detector_method_defs Let_def split: if_splits)
    next
      case 2
      then show ?thesis by (rule Cons.IH)
    qed
  qed
qed

text \<open>
  C9. The detector export first sets every compute flag to False and then runs the
  exporters of the detectors. So in the record it yields, a compute flag is True exactly
  when the options hold a detector of a kind whose exporter sets it: every flag of a kind
  that is absent from the options is False, and so is every flag that no exporter sets
  (the depth, radial, spatial and lateral distributions of the backscattered electrons,
  the secondary electrons, the energy loss and the electron distributions).
\<close>

theorem compute_flags_after_detector_export:
  assumes "export_detectors equivalent_opening options wxrops = Inr w"
  shows "(XrayCompute w \<longleftrightarrow>
            (\<exists>d \<in> snd ` set (detectors options). is_PhotonDepthDetector d
                \<or> is_PhotonIntensityDetector d \<or> is_PhotonSpectrumDetector d))
       \<and> (XrayComputeBackground w \<longleftrightarrow>
            (\<exists>d \<in> snd ` set (detectors options). is_PhotonSpectrumDetector d))
       \<and> (XrayComputeCharacteristic w \<longleftrightarrow>
            (\<exists>d \<in> snd ` set (detectors options). is_PhotonDepthDetector d
                \<or> is_PhotonIntensityDetector d \<or> is_PhotonSpectrumDetector d))
       \<and> (ComputeBSEDistribution w \<longleftrightarrow>
            (\<exists>d \<in> snd ` set (detectors options). is_BackscatteredElectronEnergyDetector d
                \<or> is_BackscatteredElectronPolarAngularDetector d
                \<or> d = ElectronFractionDetector))
       \<and> (ComputeBSEEnergy w \<longleftrightarrow>
            (\<exists>d \<in> snd ` set (detectors options). is_BackscatteredElectronEnergyDetector d
                \<or> d = ElectronFractionDetector))
       \<and> (ComputeBSEAngular w \<longleftrightarrow>
            (\<exists>d \<in> snd ` set (detectors options).
                is_BackscatteredElectronPolarAngularDetector d))
       \<and> \<not> ComputeBSEDepth w \<and> \<not> ComputeBSERadial w \<and> \<not> ComputeBSESpatial w
       \<and> \<not> ComputeBSELateral w \<and> \<not> ComputeSEDistribution w
       \<and> \<not> ComputeEnergyLossDistribution w \<and> \<not> ComputeEnergyLossDepth w
       \<and> \<not> ComputeEnergyLossLateral w \<and> \<not> ComputeEnergyLossSpatial w
       \<and> \<not> ComputeEnergyLossRadial w
       \<and> \<not> ComputeElectronDistribution w \<and> \<not> ComputeElectronDepth w
       \<and> \<not> ComputeElectronRadial w \<and> \<not> ComputeElectronSpatial w
       \<and> \<not> ComputeElectronLateral w"
proof -
  from assms obtain w1 where
    d: "Exporter_export_detectors options (detectors options)
          (deactivate_all_detectors wxrops) = Inr w1"
    and p: "detector_position equivalent_opening options w1 = Inr w"
    by (rule export_detectors_Inr)
  note fl = Exporter_export_detectors_flags[OF d]
  note ot = Exporter_export_detectors_other_flags[OF d]
  from detector_position_Inr[OF p] show ?thesis
  proof
    assume "w = w1"
    with fl ot show ?thesis by (simp add: deactivate_all_detectors_def)
  next
    assume "w = w1\<lparr>TOA_deg :=
              degrees (takeoffangle_rad
                (delim (hd (map snd (iterclass_DelimitedDetector (detectors options)))))),
            AngleThetaDetector_deg :=
              90 - degrees (takeoffangle_rad
                (delim (hd (map snd (iterclass_DelimitedDetector (detectors options)))))),
            AnglePhiDetector_deg :=
              degrees ((0
                + fst (azimuth_rad
                    (delim (hd (map snd (iterclass_DelimitedDetector (detectors options))))))
                + snd (azimuth_rad
                    (delim (hd (map snd (iterclass_DelimitedDetector (detectors options)))))))
                / 2),
            UserDefineSolidAngle := True,
            SolidAngle_sr :=
              solidangle_sr
                (delim (hd (map snd (iterclass_DelimitedDetector (detectors options)))))\<rparr>"
    with fl ot show ?thesis by (simp add: deactivate_all_detectors_def)
  qed
qed

text \<open>
  The example options hold a backscattered electron energy detector, a photon depth
  detector and a photon intensity detector, and the record starts with every flag True.
\<close>

theorem compute_flags_after_detector_export_witness:
  "\<exists>w. export_detectors same_opening example_Options example_OptionsFile = Inr w
      \<and> XrayCompute w \<and> XrayComputeCharacteristic w \<and> \<not> XrayComputeBackground w
      \<and> ComputeBSEDistribution w \<and> ComputeBSEEnergy w \<and> \<not> ComputeBSEAngular w
      \<and> \<not> ComputeBSEDepth w \<and> \<not> ComputeSEDistribution w
      \<and> \<not> ComputeEnergyLossDistribution w \<and> \<not> ComputeElectronDistribution w"
proof -
  have "\<exists>w. export_detectors same_opening example_Options example_OptionsFile = Inr w"
    by (simp add: export_detectors_def example_Options_def detector_method_defs
        detector_position_def iterclass_DelimitedDetector_def same_opening_def Let_def)
  then obtain w where
    w: "export_detectors same_opening example_Options example_OptionsFile = Inr w" ..
  from compute_flags_after_detector_export[OF w] have "XrayCompute w \<and> XrayComputeCharacteristic w
      \<and> \<not> XrayComputeBackground w
      \<and> ComputeBSEDistribution w \<and> ComputeBSEEnergy w \<and> \<not> ComputeBSEAngular w
      \<and> \<not> ComputeBSEDepth w \<and> \<not> ComputeSEDistribution w
      \<and> \<not> ComputeEnergyLossDistribution w \<and> \<not> ComputeElectronDistribution w"
    by (simp add: example_Options_def)
  with w show ?thesis by blast
qed

subsection \<open>A single delimited detector\<close>

text \<open>
  C10. When the options hold exactly one delimited detector, the detector export never
  fails with the exception for differing openings, whatever the equivalence of openings
  is, and in the record it yields the take-off angle is that of the detector in degrees,
  the angle theta is 90 minus the take-off angle, the angle phi is the mean of the two
  bounds of the detector's azimuth in degrees, and the solid angle is the detector's.
\<close>

theorem single_delimited_detector_position:
  assumes "map snd (iterclass_DelimitedDetector (detectors options)) = [d]"
  shows "export_detectors equivalent_opening options wxrops \<noteq> Inl ExporterException
    \<and> (\<forall>w. export_detectors equivalent_opening options wxrops = Inr w \<longrightarrow>
          TOA_deg w = degrees (takeoffangle_rad (delim d))
        \<and> AngleThetaDetector_deg w = 90 - TOA_deg w
        \<and> AnglePhiDetector_deg w
            = degrees ((fst (azimuth_rad (delim d)) + snd (azimuth_rad (delim d))) / 2)
        \<and> UserDefineSolidAngle w
        \<and> SolidAngle_sr w = solidangle_sr (delim d))"
proof -
  have pos: "detector_position equivalent_opening options w1 =
      Inr (w1\<lparr>TOA_deg := degrees (takeoffangle_rad (delim d)),
              AngleThetaDetector_deg := 90 - degrees (takeoffangle_rad (delim d)),
              AnglePhiDetector_deg :=
                degrees ((0 + fst (azimuth_rad (delim d)) + snd (azimuth_rad (delim d))) / 2),
              UserDefineSolidAngle := True,
              SolidAngle_sr := solidangle_sr (delim d)\<rparr>)" for w1
    using assms by (simp add: detector_position_def Let_def)
  have "export_detectors equivalent_opening options wxrops \<noteq> Inl ExporterException"
  proof (cases "Exporter_export_detectors options (detectors options)
      (deactivate_all_detectors wxrops)")
    case (Inl e)
    from Exporter_export_detectors_Inl[OF Inl] have "e \<noteq> ExporterException" by simp
    with Inl show ?thesis by (simp add: export_detectors_def)
  next
    case (Inr w1)
    then show ?thesis by (simp add: export_detectors_def pos)
  qed
  moreover have "TOA_deg w = degrees (takeoffangle_rad (delim d))
        \<and> AngleThetaDetector_deg w = 90 - TOA_deg w
        \<and> AnglePhiDetector_deg w
            = degrees ((fst (azimuth_rad (delim d)) + snd (azimuth_rad (delim d))) / 2)
        \<and> UserDefineSolidAngle w
        \<and> SolidAngle_sr w = solidangle_sr (delim d)"
    if "export_detectors equivalent_opening options wxrops = Inr w" for w
  proof -
    from that obtain w1 where "detector_position equivalent_opening options w1 = Inr w"
      by (rule export_detectors_Inr)
    with pos[of w1] show ?thesis by auto
  qed
  ultimately show ?thesis by blast
qed

text \<open>
  One photon intensity detector of take-off angle \<open>pi / 4\<close>, azimuth from 0 to
  \<open>pi\<close> and solid angle 2, with an equivalence that holds of no pair: 45, 45 and 90
  degrees.
\<close>

theorem single_delimited_detector_position_witness:
  "map snd (iterclass_DelimitedDetector (detectors
      (example_Options\<lparr>detectors :=
         [(''bse'', BackscatteredElectronEnergyDetector 1000),
          (''xray'', PhotonIntensityDetector example_opening)]\<rparr>)))
     = [PhotonIntensityDetector example_opening]
   \<and> export_detectors (\<lambda>d1 d2. False)
        (example_Options\<lparr>detectors :=
           [(''bse'', BackscatteredElectronEnergyDetector 1000),
            (''xray'', PhotonIntensityDetector example_opening)]\<rparr>)
        example_OptionsFile \<noteq> Inl ExporterException
   \<and> (\<exists>w. export_detectors (\<lambda>d1 d2. False)
          (example_Options\<lparr>detectors :=
             [(''bse'', BackscatteredElectronEnergyDetector 1000),
              (''xray'', PhotonIntensityDetector example_opening)]\<rparr>)
          example_OptionsFile = Inr w
        \<and> TOA_deg w = 45 \<and> AngleThetaDetector_deg w = 45 \<and> AnglePhiDetector_deg w = 90
        \<and> UserDefineSolidAngle w \<and> SolidAngle_sr w = 2)"
proof -
  let ?options = "example_Options\<lparr>detectors :=
             [(''bse'', BackscatteredElectronEnergyDetector 1000),
              (''xray'', PhotonIntensityDetector example_opening)]\<rparr>"
  have one: "map snd (iterclass_DelimitedDetector (detectors ?options))
      = [PhotonIntensityDetector example_opening]"
    by (simp add: iterclass_DelimitedDetector_def)
  have "\<exists>w. export_detectors (\<lambda>d1 d2. False) ?options example_OptionsFile = Inr w"
    by (simp add: export_detectors_def detector_method_defs
        detector_position_def iterclass_DelimitedDetector_def Let_def)
  then obtain w where
    w: "export_detectors (\<lambda>d1 d2. False) ?options example_OptionsFile = Inr w" ..
  note c = single_delimited_detector_position[OF one, of "\<lambda>d1 d2. False" example_OptionsFile]
  from c w have "TOA_deg w = 45 \<and> AngleThetaDetector_deg w = 45
      \<and> AnglePhiDetector_deg w = 90 \<and> UserDefineSolidAngle w \<and> SolidAngle_sr w = 2"
    by (simp add: example_opening_def degrees_def)
  with one c w show ?thesis by blast
qed

subsection \<open>The models\<close>

lemma getitem_entry:
  assumes "distinct (map fst d)" and "(k, v) \<in> set d"
  shows "getitem d k = Inr v"
  using assms by (simp add: getitem_def)

lemma getitem_missing:
  assumes "k \<notin> fst ` set d"
  shows "getitem d k = Inl KeyError"
proof -
  from assms have "map_of d k = None"
    by (simp add: map_of_eq_None_iff)
  then show ?thesis by (simp add: getitem_def)
qed

lemma distinct_model_types:
  "distinct (map fst elastic_cross_section_types)"
  "distinct (map fst ionization_cross_section_types)"
  "distinct (map fst ionization_potential_types)"
  "distinct (map fst random_number_generator_types)"
  "distinct (map fst direction_cosine_types)"
  "distinct (map fst energy_loss_types)"
  "distinct (map fst mass_absorption_coefficient_types)"
  by (simp_all add: elastic_cross_section_types_def ionization_cross_section_types_def
      ionization_potential_types_def random_number_generator_types_def
      direction_cosine_types_def energy_loss_types_def mass_absorption_coefficient_types_def)

lemma and_then_getitem_entry:
  assumes "distinct (map fst d)" and "(k, v) \<in> set d"
  shows "and_then (getitem d k) f = f v"
  using getitem_entry[OF assms] by simp

lemma and_then_getitem_missing:
  assumes "k \<notin> fst ` set d"
  shows "and_then (getitem d k) f = Inl KeyError"
  using getitem_missing[OF assms] by simp

text \<open>
  C3. For each of the seven categories of physical models (elastic cross section,
  ionization cross section, ionization potential, random number generator, direction
  cosine, energy loss, mass absorption coefficient), the export of a model that has an
  entry in the dictionary of the category writes the constant of that entry into the
  field of the category and changes nothing else, and the export of a model without an
  entry fails with the key error of the missing entry.
\<close>

theorem model_export_by_table:
  "(\<forall>c. (m, c) \<in> set elastic_cross_section_types \<longrightarrow>
       model_elastic_cross_section options m w
         = Inr (w\<lparr>TypeElectronElasticCrossSection := c\<rparr>))
   \<and> (m \<notin> fst ` set elastic_cross_section_types \<longrightarrow>
       model_elastic_cross_section options m w = Inl KeyError)
   \<and> (\<forall>c. (m, c) \<in> set ionization_cross_section_types \<longrightarrow>
       model_ionization_cross_section options m w
         = Inr (w\<lparr>TypeIonizationCrossSection := c\<rparr>))
   \<and> (m \<notin> fst ` set ionization_cross_section_types \<longrightarrow>
       model_ionization_cross_section options m w = Inl KeyError)
   \<and> (\<forall>c. (m, c) \<in> set ionization_potential_types \<longrightarrow>
       model_ionization_potential options m w
         = Inr (w\<lparr>TypeIonisationPotential := c\<rparr>))
   \<and> (m \<notin> fst ` set ionization_potential_types \<longrightarrow>
       model_ionization_potential options m w = Inl KeyError)
   \<and> (\<forall>c. (m, c) \<in> set random_number_generator_types \<longrightarrow>
       model_random_number_generator options m w
         = Inr (w\<lparr>TypeRandomGenerator := c\<rparr>))
   \<and> (m \<notin> fst ` set random_number_generator_types \<longrightarrow>
       model_random_number_generator options m w = Inl KeyError)
   \<and> (\<forall>c. (m, c) \<in> set direction_cosine_types \<longrightarrow>
       model_direction_cosine options m w
         = Inr (w\<lparr>TypeDirectionCosines := c\<rparr>))
   \<and> (m \<notin> fst ` set direction_cosine_types \<longrightarrow>
       model_direction_cosine options m w = Inl KeyError)
   \<and> (\<forall>c. (m, c) \<in> set energy_loss_types \<longrightarrow>
       model_energy_loss options m w
         = Inr (w\<lparr>TypeEnergyLoss := c\<rparr>))
   \<and> (m \<notin> fst ` set energy_loss_types \<longrightarrow>
       model_energy_loss options m w = Inl KeyError)
   \<and> (\<forall>c. (m, c) \<in> set mass_absorption_coefficient_types \<longrightarrow>
       model_mass_absorption_coefficient options m w
         = Inr (w\<lparr>TypeMac := c\<rparr>))
   \<and> (m \<notin> fst ` set mass_absorption_coefficient_types \<longrightarrow>
       model_mass_absorption_coefficient options m w = Inl KeyError)"
proof -
  have e1: "\<forall>c. (m, c) \<in> set elastic_cross_section_types \<longrightarrow>
       model_elastic_cross_section options m w = Inr (w\<lparr>TypeElectronElasticCrossSection := c\<rparr>)"
    unfolding model_elastic_cross_section_def
    by (intro allI impI) (rule and_then_getitem_entry[OF distinct_model_types(1)])
  have n1: "m \<notin> fst ` set elastic_cross_section_types \<longrightarrow> model_elastic_cross_section options m w = Inl KeyError"
    unfolding model_elastic_cross_section_def
    by (intro impI) (rule and_then_getitem_missing)
  have e2: "\<forall>c. (m, c) \<in> set ionization_cross_section_types \<longrightarrow>
       model_ionization_cross_section options m w = Inr (w\<lparr>TypeIonizationCrossSection := c\<rparr>)"
    unfolding model_ionization_cross_section_def
    by (intro allI impI) (rule and_then_getitem_entry[OF distinct_model_types(2)])
  have n2: "m \<notin> fst ` set ionization_cross_section_types \<longrightarrow> model_ionization_cross_section options m w = Inl KeyError"
    unfolding model_ionization_cross_section_def
    by (intro impI) (rule and_then_getitem_missing)
  have e3: "\<forall>c. (m, c) \<in> set ionization_potential_types \<longrightarrow>
       model_ionization_potential options m w = Inr (w\<lparr>TypeIonisationPotential := c\<rparr>)"
    unfolding model_ionization_potential_def
    by (intro allI impI) (rule and_then_getitem_entry[OF distinct_model_types(3)])
  have n3: "m \<notin> fst ` set ionization_potential_types \<longrightarrow> model_ionization_potential options m w = Inl KeyError"
    unfolding model_ionization_potential_def
    by (intro impI) (rule and_then_getitem_missing)
  have e4: "\<forall>c. (m, c) \<in> set random_number_generator_types \<longrightarrow>
       model_random_number_generator options m w = Inr (w\<lparr>TypeRandomGenerator := c\<rparr>)"
    unfolding model_random_number_generator_def
    by (intro allI impI) (rule and_then_getitem_entry[OF distinct_model_types(4)])
  have n4: "m \<notin> fst ` set random_number_generator_types \<longrightarrow> model_random_number_generator options m w = Inl KeyError"
    unfolding model_random_number_generator_def
    by (intro impI) (rule and_then_getitem_missing)
  have e5: "\<forall>c. (m, c) \<in> set direction_cosine_types \<longrightarrow>
       model_direction_cosine options m w = Inr (w\<lparr>TypeDirectionCosines := c\<rparr>)"
    unfolding model_direction_cosine_def
    by (intro allI impI) (rule and_then_getitem_entry[OF distinct_model_types(5)])
  have n5: "m \<notin> fst ` set direction_cosine_types \<longrightarrow> model_direction_cosine options m w = Inl KeyError"
    unfolding model_direction_cosine_def
    by (intro impI) (rule and_then_getitem_missing)
  have e6: "\<forall>c. (m, c) \<in> set energy_loss_types \<longrightarrow>
       model_energy_loss options m w = Inr (w\<lparr>TypeEnergyLoss := c\<rparr>)"
    unfolding model_energy_loss_def
    by (intro allI impI) (rule and_then_getitem_entry[OF distinct_model_types(6)])
  have n6: "m \<notin> fst ` set energy_loss_types \<longrightarrow> model_energy_loss options m w = Inl KeyError"
    unfolding model_energy_loss_def
    by (intro impI) (rule and_then_getitem_missing)
  have e7: "\<forall>c. (m, c) \<in> set mass_absorption_coefficient_types \<longrightarrow>
       model_mass_absorption_coefficient options m w = Inr (w\<lparr>TypeMac := c\<rparr>)"
    unfolding model_mass_absorption_coefficient_def
    by (intro allI impI) (rule and_then_getitem_entry[OF distinct_model_types(7)])
  have n7: "m \<notin> fst ` set mass_absorption_coefficient_types \<longrightarrow> model_mass_absorption_coefficient options m w = Inl KeyError"
    unfolding model_mass_absorption_coefficient_def
    by (intro impI) (rule and_then_getitem_missing)
  from e1 n1 e2 n2 e3 n3 e4 n4 e5 n5 e6 n6 e7 n7 show ?thesis by (intro conjI)
qed

text \<open>
  One model with an entry for each of the seven categories, on a record whose seven
  fields hold other constants, so that each export changes the record; and an elastic
  cross section and an ionization cross section without an entry.
\<close>

theorem model_export_by_table_witness:
  "model_random_number_generator example_Options
       (Model RANDOM_NUMBER_GENERATOR ''press1966_rand1'') example_OptionsFile
     = Inr (example_OptionsFile\<lparr>TypeRandomGenerator := TYPE_RAN1\<rparr>)
   \<and> model_mass_absorption_coefficient example_Options
       (Model MASS_ABSORPTION_COEFFICIENT ''henke1993'') example_OptionsFile
     = Inr (example_OptionsFile\<lparr>TypeMac := TYPE_HENKE\<rparr>)
   \<and> model_elastic_cross_section example_Options
       (Model ELASTIC_CROSS_SECTION ''rutherford'') example_OptionsFile
     = Inr (example_OptionsFile\<lparr>TypeElectronElasticCrossSection := TYPE_RUTHERFORD\<rparr>)
   \<and> model_ionization_cross_section example_Options
       (Model IONIZATION_CROSS_SECTION ''casnati1982'') example_OptionsFile
     = Inr (example_OptionsFile\<lparr>TypeIonizationCrossSection := TYPE_CASNATI\<rparr>)
   \<and> model_ionization_potential example_Options
       (Model IONIZATION_POTENTIAL ''joy_luo1989'') example_OptionsFile
     = Inr (example_OptionsFile\<lparr>TypeIonisationPotential := IonizationPotential_TYPE_JOY_LUO\<rparr>)
   \<and> model_direction_cosine example_Options
       (Model DIRECTION_COSINE ''demers2000'') example_OptionsFile
     = Inr (example_OptionsFile\<lparr>TypeDirectionCosines := TYPE_DEMERS\<rparr>)
   \<and> model_energy_loss example_Options
       (Model ENERGY_LOSS ''joy_luo1989'') example_OptionsFile
     = Inr (example_OptionsFile\<lparr>TypeEnergyLoss := EnergyLoss_TYPE_JOY_LUO\<rparr>)
   \<and> TypeRandomGenerator example_OptionsFile \<noteq> TYPE_RAN1
   \<and> TypeMac example_OptionsFile \<noteq> TYPE_HENKE
   \<and> TypeElectronElasticCrossSection example_OptionsFile \<noteq> TYPE_RUTHERFORD
   \<and> TypeIonizationCrossSection example_OptionsFile \<noteq> TYPE_CASNATI
   \<and> TypeIonisationPotential example_OptionsFile \<noteq> IonizationPotential_TYPE_JOY_LUO
   \<and> TypeDirectionCosines example_OptionsFile \<noteq> TYPE_DEMERS
   \<and> TypeEnergyLoss example_OptionsFile \<noteq> EnergyLoss_TYPE_JOY_LUO
   \<and> model_elastic_cross_section example_Options
       (Model ELASTIC_CROSS_SECTION ''elsepa2005'') example_OptionsFile = Inl KeyError
   \<and> model_ionization_cross_section example_Options
       (Model IONIZATION_CROSS_SECTION ''gauvin'') example_OptionsFile = Inl KeyError"
proof -
  have m1: "(Model RANDOM_NUMBER_GENERATOR ''press1966_rand1'', TYPE_RAN1)
      \<in> set random_number_generator_types"
    by (simp add: random_number_generator_types_def)
  have m2: "(Model MASS_ABSORPTION_COEFFICIENT ''henke1993'', TYPE_HENKE)
      \<in> set mass_absorption_coefficient_types"
    by (simp add: mass_absorption_coefficient_types_def)
  have m3: "(Model ELASTIC_CROSS_SECTION ''rutherford'', TYPE_RUTHERFORD)
      \<in> set elastic_cross_section_types"
    by (simp add: elastic_cross_section_types_def)
  have m4: "(Model IONIZATION_CROSS_SECTION ''casnati1982'', TYPE_CASNATI)
      \<in> set ionization_cross_section_types"
    by (simp add: ionization_cross_section_types_def)
  have m5: "(Model IONIZATION_POTENTIAL ''joy_luo1989'', IonizationPotential_TYPE_JOY_LUO)
      \<in> set ionization_potential_types"
    by (simp add: ionization_potential_types_def)
  have m6: "(Model DIRECTION_COSINE ''demers2000'', TYPE_DEMERS)
      \<in> set direction_cosine_types"
    by (simp add: direction_cosine_types_def)
  have m7: "(Model ENERGY_LOSS ''joy_luo1989'', EnergyLoss_TYPE_JOY_LUO)
      \<in> set energy_loss_types"
    by (simp add: energy_loss_types_def)
  have n1: "Model ELASTIC_CROSS_SECTION ''elsepa2005''
      \<notin> fst ` set elastic_cross_section_types"
    by (simp add: elastic_cross_section_types_def)
  have n2: "Model IONIZATION_CROSS_SECTION ''gauvin''
      \<notin> fst ` set ionization_cross_section_types"
    by (simp add: ionization_cross_section_types_def)
  from model_export_by_table[of "Model RANDOM_NUMBER_GENERATOR ''press1966_rand1''"
      example_Options example_OptionsFile]
  have "\<forall>c. (Model RANDOM_NUMBER_GENERATOR ''press1966_rand1'', c)
        \<in> set random_number_generator_types \<longrightarrow>
      model_random_number_generator example_Options
        (Model RANDOM_NUMBER_GENERATOR ''press1966_rand1'') example_OptionsFile
      = Inr (example_OptionsFile\<lparr>TypeRandomGenerator := c\<rparr>)"
    by (elim conjE) assumption
  with m1 have a1: "model_random_number_generator example_Options
        (Model RANDOM_NUMBER_GENERATOR ''press1966_rand1'') example_OptionsFile
      = Inr (example_OptionsFile\<lparr>TypeRandomGenerator := TYPE_RAN1\<rparr>)"
    by blast
  from model_export_by_table[of "Model MASS_ABSORPTION_COEFFICIENT ''henke1993''"
      example_Options example_OptionsFile]
  have "\<forall>c. (Model MASS_ABSORPTION_COEFFICIENT ''henke1993'', c)
        \<in> set mass_absorption_coefficient_types \<longrightarrow>
      model_mass_absorption_coefficient example_Options
        (Model MASS_ABSORPTION_COEFFICIENT ''henke1993'') example_OptionsFile
      = Inr (example_OptionsFile\<lparr>TypeMac := c\<rparr>)"
    by (elim conjE) assumption
  with m2 have a2: "model_mass_absorption_coefficient example_Options
        (Model MASS_ABSORPTION_COEFFICIENT ''henke1993'') example_OptionsFile
      = Inr (example_OptionsFile\<lparr>TypeMac := TYPE_HENKE\<rparr>)"
    by blast
  from model_export_by_table[of "Model ELASTIC_CROSS_SECTION ''rutherford''"
      example_Options example_OptionsFile]
  have "\<forall>c. (Model ELASTIC_CROSS_SECTION ''rutherford'', c)
        \<in> set elastic_cross_section_types \<longrightarrow>
      model_elastic_cross_section example_Options
        (Model ELASTIC_CROSS_SECTION ''rutherford'') example_OptionsFile
      = Inr (example_OptionsFile\<lparr>TypeElectronElasticCrossSection := c\<rparr>)"
    by (elim conjE) assumption
  with m3 have a3: "model_elastic_cross_section example_Options
        (Model ELASTIC_CROSS_SECTION ''rutherford'') example_OptionsFile
      = Inr (example_OptionsFile\<lparr>TypeElectronElasticCrossSection := TYPE_RUTHERFORD\<rparr>)"
    by blast
  from model_export_by_table[of "Model IONIZATION_CROSS_SECTION ''casnati1982''"
      example_Options example_OptionsFile]
  have "\<forall>c. (Model IONIZATION_CROSS_SECTION ''casnati1982'', c)
        \<in> set ionization_cross_section_types \<longrightarrow>
      model_ionization_cross_section example_Options
        (Model IONIZATION_CROSS_SECTION ''casnati1982'') example_OptionsFile
      = Inr (example_OptionsFile\<lparr>TypeIonizationCrossSection := c\<rparr>)"
    by (elim conjE) assumption
  with m4 have a4: "model_ionization_cross_section example_Options
        (Model IONIZATION_CROSS_SECTION ''casnati1982'') example_OptionsFile
      = Inr (example_OptionsFile\<lparr>TypeIonizationCrossSection := TYPE_CASNATI\<rparr>)"
    by blast
  from model_export_by_table[of "Model IONIZATION_POTENTIAL ''joy_luo1989''"
      example_Options example_OptionsFile]
  have "\<forall>c. (Model IONIZATION_POTENTIAL ''joy_luo1989'', c)
        \<in> set ionization_potential_types \<longrightarrow>
      model_ionization_potential example_Options
        (Model IONIZATION_POTENTIAL ''joy_luo1989'') example_OptionsFile
      = Inr (example_OptionsFile\<lparr>TypeIonisationPotential := c\<rparr>)"
    by (elim conjE) assumption
  with m5 have a5: "model_ionization_potential example_Options
        (Model IONIZATION_POTENTIAL ''joy_luo1989'') example_OptionsFile
      = Inr (example_OptionsFile
               \<lparr>TypeIonisationPotential := IonizationPotential_TYPE_JOY_LUO\<rparr>)"
    by blast
  from model_export_by_table[of "Model DIRECTION_COSINE ''demers2000''"
      example_Options example_OptionsFile]
  have "\<forall>c. (Model DIRECTION_COSINE ''demers2000'', c)
        \<in> set direction_cosine_types \<longrightarrow>
      model_direction_cosine example_Options
        (Model DIRECTION_COSINE ''demers2000'') example_OptionsFile
      = Inr (example_OptionsFile\<lparr>TypeDirectionCosines := c\<rparr>)"
    by (elim conjE) assumption
  with m6 have a6: "model_direction_cosine example_Options
        (Model DIRECTION_COSINE ''demers2000'') example_OptionsFile
      = Inr (example_OptionsFile\<lparr>TypeDirectionCosines := TYPE_DEMERS\<rparr>)"
    by blast
  from model_export_by_table[of "Model ENERGY_LOSS ''joy_luo1989''"
      example_Options example_OptionsFile]
  have "\<forall>c. (Model ENERGY_LOSS ''joy_luo1989'', c)
        \<in> set energy_loss_types \<longrightarrow>
      model_energy_loss example_Options
        (Model ENERGY_LOSS ''joy_luo1989'') example_OptionsFile
      = Inr (example_OptionsFile\<lparr>TypeEnergyLoss := c\<rparr>)"
    by (elim conjE) assumption
  with m7 have a7: "model_energy_loss example_Options
        (Model ENERGY_LOSS ''joy_luo1989'') example_OptionsFile
      = Inr (example_OptionsFile\<lparr>TypeEnergyLoss := EnergyLoss_TYPE_JOY_LUO\<rparr>)"
    by blast
  have b: "TypeRandomGenerator example_OptionsFile \<noteq> TYPE_RAN1"
    "TypeMac example_OptionsFile \<noteq> TYPE_HENKE"
    "TypeElectronElasticCrossSection example_OptionsFile \<noteq> TYPE_RUTHERFORD"
    "TypeIonizationCrossSection example_OptionsFile \<noteq> TYPE_CASNATI"
    "TypeIonisationPotential example_OptionsFile \<noteq> IonizationPotential_TYPE_JOY_LUO"
    "TypeDirectionCosines example_OptionsFile \<noteq> TYPE_DEMERS"
    "TypeEnergyLoss example_OptionsFile \<noteq> EnergyLoss_TYPE_JOY_LUO"
    by (simp_all add: example_OptionsFile_def)
  from model_export_by_table[of "Model ELASTIC_CROSS_SECTION ''elsepa2005''"
      example_Options example_OptionsFile]
  have "Model ELASTIC_CROSS_SECTION ''elsepa2005'' \<notin> fst ` set elastic_cross_section_types
      \<longrightarrow> model_elastic_cross_section example_Options
        (Model ELASTIC_CROSS_SECTION ''elsepa2005'') example_OptionsFile = Inl KeyError"
    by (elim conjE) assumption
  with n1 have c1: "model_elastic_cross_section example_Options
        (Model ELASTIC_CROSS_SECTION ''elsepa2005'') example_OptionsFile = Inl KeyError"
    by blast
  from model_export_by_table[of "Model IONIZATION_CROSS_SECTION ''gauvin''"
      example_Options example_OptionsFile]
  have "Model IONIZATION_CROSS_SECTION ''gauvin''
        \<notin> fst ` set ionization_cross_section_types
      \<longrightarrow> model_ionization_cross_section example_Options
        (Model IONIZATION_CROSS_SECTION ''gauvin'') example_OptionsFile = Inl KeyError"
    by (elim conjE) assumption
  with n2 have c2: "model_ionization_cross_section example_Options
        (Model IONIZATION_CROSS_SECTION ''gauvin'') example_OptionsFile = Inl KeyError"
    by blast
  from a1 a2 a3 a4 a5 a6 a7 b c1 c2 show ?thesis by (intro conjI)
qed

subsection \<open>Limits and models\<close>

lemma export_limits_eq:
  "export_limits options ls w
     = Inr (if ls = [] then w else w\<lparr>NbElectron := showers (last ls)\<rparr>)"
  by (induction ls arbitrary: w) (simp_all add: limit_showers_def)

lemma model_exporters_frame:
  assumes "model_exporters ty options m w = Inr w'"
  shows "clear_model_fields w' = clear_model_fields w"
  using assms
  by (cases ty)
     (auto simp: and_then_eq_Inr clear_model_fields_def
        model_elastic_cross_section_def model_ionization_cross_section_def
        model_ionization_potential_def model_random_number_generator_def
        model_direction_cosine_def model_energy_loss_def
        model_mass_absorption_coefficient_def)

lemma export_models_frame:
  assumes "export_models options ms w = Inr w'"
  shows "clear_model_fields w' = clear_model_fields w"
  using assms
proof (induction ms arbitrary: w)
  case Nil
  then show ?case by simp
next
  case (Cons m ms)
  obtain ty nm where m: "m = Model ty nm" by (cases m)
  with Cons.prems obtain w1 where
    s: "model_exporters ty options (Model ty nm) w = Inr w1"
    and r: "export_models options ms w1 = Inr w'"
    by (auto simp: and_then_eq_Inr)
  from model_exporters_frame[OF s] Cons.IH[OF r] show ?case by simp
qed

lemma supported_model_exported:
  assumes "Model ty nm \<in> set supported_models"
  shows "\<exists>w'. model_exporters ty options (Model ty nm) w = Inr w'"
proof (cases ty)
  case ELASTIC_CROSS_SECTION
  with assms have "Model ty nm \<in> fst ` set elastic_cross_section_types"
    by (auto simp: supported_models_def ionization_cross_section_types_def
        ionization_potential_types_def random_number_generator_types_def
        direction_cosine_types_def energy_loss_types_def
        mass_absorption_coefficient_types_def)
  then obtain c where "(Model ty nm, c) \<in> set elastic_cross_section_types" by auto
  from getitem_entry[OF distinct_model_types(1) this] ELASTIC_CROSS_SECTION
  show ?thesis by (simp add: model_elastic_cross_section_def)
next
  case IONIZATION_CROSS_SECTION
  with assms have "Model ty nm \<in> fst ` set ionization_cross_section_types"
    by (auto simp: supported_models_def elastic_cross_section_types_def
        ionization_potential_types_def random_number_generator_types_def
        direction_cosine_types_def energy_loss_types_def
        mass_absorption_coefficient_types_def)
  then obtain c where "(Model ty nm, c) \<in> set ionization_cross_section_types" by auto
  from getitem_entry[OF distinct_model_types(2) this] IONIZATION_CROSS_SECTION
  show ?thesis by (simp add: model_ionization_cross_section_def)
next
  case IONIZATION_POTENTIAL
  with assms have "Model ty nm \<in> fst ` set ionization_potential_types"
    by (auto simp: supported_models_def elastic_cross_section_types_def
        ionization_cross_section_types_def random_number_generator_types_def
        direction_cosine_types_def energy_loss_types_def
        mass_absorption_coefficient_types_def)
  then obtain c where "(Model ty nm, c) \<in> set ionization_potential_types" by auto
  from getitem_entry[OF distinct_model_types(3) this] IONIZATION_POTENTIAL
  show ?thesis by (simp add: model_ionization_potential_def)
next
  case RANDOM_NUMBER_GENERATOR
  with assms have "Model ty nm \<in> fst ` set random_number_generator_types"
    by (auto simp: supported_models_def elastic_cross_section_types_def
        ionization_cross_section_types_def ionization_potential_types_def
        direction_cosine_types_def energy_loss_types_def
        mass_absorption_coefficient_types_def)
  then obtain c where "(Model ty nm, c) \<in> set random_number_generator_types" by auto
  from getitem_entry[OF distinct_model_types(4) this] RANDOM_NUMBER_GENERATOR
  show ?thesis by (simp add: model_random_number_generator_def)
next
  case DIRECTION_COSINE
  with assms have "Model ty nm \<in> fst ` set direction_cosine_types"
    by (auto simp: supported_models_def elastic_cross_section_types_def
        ionization_cross_section_types_def ionization_potential_types_def
        random_number_generator_types_def energy_loss_types_def
        mass_absorption_coefficient_types_def)
  then obtain c where "(Model ty nm, c) \<in> set direction_cosine_types" by auto
  from getitem_entry[OF distinct_model_types(5) this] DIRECTION_COSINE
  show ?thesis by (simp add: model_direction_cosine_def)
next
  case ENERGY_LOSS
  with assms have "Model ty nm \<in> fst ` set energy_loss_types"
    by (auto simp: supported_models_def elastic_cross_section_types_def
        ionization_cross_section_types_def ionization_potential_types_def
        random_number_generator_types_def direction_cosine_types_def
        mass_absorption_coefficient_types_def)
  then obtain c where "(Model ty nm, c) \<in> set energy_loss_types" by auto
  from getitem_entry[OF distinct_model_types(6) this] ENERGY_LOSS
  show ?thesis by (simp add: model_energy_loss_def)
next
  case MASS_ABSORPTION_COEFFICIENT
  with assms have "Model ty nm \<in> fst ` set mass_absorption_coefficient_types"
    by (auto simp: supported_models_def elastic_cross_section_types_def
        ionization_cross_section_types_def ionization_potential_types_def
        random_number_generator_types_def direction_cosine_types_def
        energy_loss_types_def)
  then obtain c where "(Model ty nm, c) \<in> set mass_absorption_coefficient_types" by auto
  from getitem_entry[OF distinct_model_types(7) this] MASS_ABSORPTION_COEFFICIENT
  show ?thesis by (simp add: model_mass_absorption_coefficient_def)
qed

lemma export_models_succeeds:
  assumes "set ms \<subseteq> set supported_models"
  shows "\<exists>w'. export_models options ms w = Inr w'"
  using assms
proof (induction ms arbitrary: w)
  case Nil
  then show ?case by simp
next
  case (Cons m ms)
  obtain ty nm where m: "m = Model ty nm" by (cases m)
  with Cons.prems have "Model ty nm \<in> set supported_models" by simp
  from supported_model_exported[OF this] obtain w1 where
    "model_exporters ty options (Model ty nm) w = Inr w1" by blast
  moreover from Cons.prems have "set ms \<subseteq> set supported_models" by simp
  from Cons.IH[OF this, of w1] obtain w' where "export_models options ms w1 = Inr w'" ..
  ultimately show ?case using m by simp
qed


subsection \<open>The five exports in sequence\<close>

lemma run_exporters_eq:
  "run_exporters eqv options (w, ws) =
     and_then
       (export_detectors eqv options
          (w\<lparr>MultiEnergy := False,
             IncidentEnergy_keV := energy_eV (beam options) / 1000,
             StartEnergy_keV := energy_eV (beam options) / 1000,
             EndEnergy_keV := energy_eV (beam options) / 1000,
             StepEnergy_keV := 1, NbStepEnergy := 1,
             BeamDiameter_nm := diameter_m (beam options) * 1000000000,
             Elements := (map fst (composition (body_material (geometry options))),
                          map snd (composition (body_material (geometry options)))),
             MinimumElectronEnergy_eV :=
               absorption_energy_electron_eV (body_material (geometry options))\<rparr>))
       (\<lambda>w3. and_then (export_limits options (limits options) w3)
       (\<lambda>w4. and_then (export_models options (models options) w4)
       (\<lambda>w5. Inr (w5,
          ws @ (if origin_m (beam options) \<noteq> (0, 0, 0)
                then [''No beam position in WinX-Ray''] else [])
             @ [''WinXRay does not support user defined density'']
             @ (if tilt_rad (geometry options) \<noteq> 0
                then [''WinXRay does not support sample tilt. Use beam tilt instead.'']
                else [])
             @ (if rotation_rad (geometry options) \<noteq> 0
                then [''WinXRay does not support sample rotation.''] else [])))))"
  by (simp add: run_exporters_def export_beam_def export_geometry_def beam_gaussian_def
      geometry_substrate_def Let_def warn_def get_materials_def minimum_def)


lemma export_detectors_beam_fields:
  assumes "export_detectors eqv options w = Inr w'"
  shows "IncidentEnergy_keV w' = IncidentEnergy_keV w"
    and "StartEnergy_keV w' = StartEnergy_keV w"
    and "EndEnergy_keV w' = EndEnergy_keV w"
    and "BeamDiameter_nm w' = BeamDiameter_nm w"
proof -
  from assms obtain w1 where
    d: "Exporter_export_detectors options (detectors options)
          (deactivate_all_detectors w) = Inr w1"
    and p: "detector_position eqv options w1 = Inr w'"
    by (rule export_detectors_Inr)
  note f = Exporter_export_detectors_frame[OF d]
  have 1: "IncidentEnergy_keV w1 = IncidentEnergy_keV w"
    using arg_cong[OF f, of IncidentEnergy_keV]
    by (simp add: clear_detector_fields_def deactivate_all_detectors_def)
  have 2: "StartEnergy_keV w1 = StartEnergy_keV w"
    using arg_cong[OF f, of StartEnergy_keV]
    by (simp add: clear_detector_fields_def deactivate_all_detectors_def)
  have 3: "EndEnergy_keV w1 = EndEnergy_keV w"
    using arg_cong[OF f, of EndEnergy_keV]
    by (simp add: clear_detector_fields_def deactivate_all_detectors_def)
  have 4: "BeamDiameter_nm w1 = BeamDiameter_nm w"
    using arg_cong[OF f, of BeamDiameter_nm]
    by (simp add: clear_detector_fields_def deactivate_all_detectors_def)
  from detector_position_Inr[OF p] 1 show "IncidentEnergy_keV w' = IncidentEnergy_keV w"
    by auto
  from detector_position_Inr[OF p] 2 show "StartEnergy_keV w' = StartEnergy_keV w"
    by auto
  from detector_position_Inr[OF p] 3 show "EndEnergy_keV w' = EndEnergy_keV w"
    by auto
  from detector_position_Inr[OF p] 4 show "BeamDiameter_nm w' = BeamDiameter_nm w"
    by auto
qed

lemma export_detectors_position:
  assumes "export_detectors eqv options w = Inr w'"
    and "map snd (iterclass_DelimitedDetector (detectors options)) = d # ds"
  shows "TOA_deg w' = degrees (takeoffangle_rad (delim d))"
    and "AngleThetaDetector_deg w' = 90 - degrees (takeoffangle_rad (delim d))"
    and "AnglePhiDetector_deg w'
           = degrees ((fst (azimuth_rad (delim d)) + snd (azimuth_rad (delim d))) / 2)"
proof -
  from assms(1) obtain w1 where p: "detector_position eqv options w1 = Inr w'"
    by (rule export_detectors_Inr)
  with assms(2) have "w' = w1\<lparr>TOA_deg := degrees (takeoffangle_rad (delim d)),
      AngleThetaDetector_deg := 90 - degrees (takeoffangle_rad (delim d)),
      AnglePhiDetector_deg :=
        degrees ((0 + fst (azimuth_rad (delim d)) + snd (azimuth_rad (delim d))) / 2),
      UserDefineSolidAngle := True,
      SolidAngle_sr := solidangle_sr (delim d)\<rparr>"
    by (simp add: detector_position_def Let_def split: if_splits)
  then show "TOA_deg w' = degrees (takeoffangle_rad (delim d))"
    and "AngleThetaDetector_deg w' = 90 - degrees (takeoffangle_rad (delim d))"
    and "AnglePhiDetector_deg w'
           = degrees ((fst (azimuth_rad (delim d)) + snd (azimuth_rad (delim d))) / 2)"
    by simp_all
qed

lemma export_wxroptions_Inr:
  assumes "export_wxroptions new eqv options dirpath = Inr (wxrops, warnings)"
  obtains w2 w3 w4 where
    "IncidentEnergy_keV w2 = energy_eV (beam options) / 1000"
    and "StartEnergy_keV w2 = energy_eV (beam options) / 1000"
    and "EndEnergy_keV w2 = energy_eV (beam options) / 1000"
    and "BeamDiameter_nm w2 = diameter_m (beam options) * 1000000000"
    and "export_detectors eqv options w2 = Inr w3"
    and "w4 = (if limits options = [] then w3
               else w3\<lparr>NbElectron := showers (last (limits options))\<rparr>)"
    and "export_models options (models options) w4 = Inr wxrops"
    and "warnings =
           (if origin_m (beam options) \<noteq> (0, 0, 0)
            then [''No beam position in WinX-Ray''] else [])
           @ [''WinXRay does not support user defined density'']
           @ (if tilt_rad (geometry options) \<noteq> 0
              then [''WinXRay does not support sample tilt. Use beam tilt instead.'']
              else [])
           @ (if rotation_rad (geometry options) \<noteq> 0
              then [''WinXRay does not support sample rotation.''] else [])"
proof -
  let ?w0 = "(case dirpath of None \<Rightarrow> new | Some p \<Rightarrow> new\<lparr>ResultsPath := Some p\<rparr>)
      \<lparr>SaveFile := True\<rparr>"
  let ?w2 = "?w0\<lparr>MultiEnergy := False,
             IncidentEnergy_keV := energy_eV (beam options) / 1000,
             StartEnergy_keV := energy_eV (beam options) / 1000,
             EndEnergy_keV := energy_eV (beam options) / 1000,
             StepEnergy_keV := 1, NbStepEnergy := 1,
             BeamDiameter_nm := diameter_m (beam options) * 1000000000,
             Elements := (map fst (composition (body_material (geometry options))),
                          map snd (composition (body_material (geometry options)))),
             MinimumElectronEnergy_eV :=
               absorption_energy_electron_eV (body_material (geometry options))\<rparr>"
  from assms have "run_exporters eqv options (?w0, []) = Inr (wxrops, warnings)"
    by (simp add: export_wxroptions_def Let_def)
  then obtain w3 w4 where 1: "export_detectors eqv options ?w2 = Inr w3"
    and 2: "export_limits options (limits options) w3 = Inr w4"
    and 3: "export_models options (models options) w4 = Inr wxrops"
    and 4: "warnings =
           [] @ (if origin_m (beam options) \<noteq> (0, 0, 0)
            then [''No beam position in WinX-Ray''] else [])
           @ [''WinXRay does not support user defined density'']
           @ (if tilt_rad (geometry options) \<noteq> 0
              then [''WinXRay does not support sample tilt. Use beam tilt instead.'']
              else [])
           @ (if rotation_rad (geometry options) \<noteq> 0
              then [''WinXRay does not support sample rotation.''] else [])"
    unfolding run_exporters_eq and_then_eq_Inr by blast
  from 2 have 5: "w4 = (if limits options = [] then w3
               else w3\<lparr>NbElectron := showers (last (limits options))\<rparr>)"
    unfolding export_limits_eq by simp
  from 4 have 6: "warnings =
           (if origin_m (beam options) \<noteq> (0, 0, 0)
            then [''No beam position in WinX-Ray''] else [])
           @ [''WinXRay does not support user defined density'']
           @ (if tilt_rad (geometry options) \<noteq> 0
              then [''WinXRay does not support sample tilt. Use beam tilt instead.'']
              else [])
           @ (if rotation_rad (geometry options) \<noteq> 0
              then [''WinXRay does not support sample rotation.''] else [])"
    by (simp only: append_Nil)
  show ?thesis
    by (rule that[of ?w2 w3 w4, OF _ _ _ _ 1 5 3 6]) simp_all
qed


lemma export_detectors_succeeds:
  assumes "list_all (\<lambda>(nm, d). nonzero_channels d) (detectors options)"
    and "list_all (\<lambda>(d1, d2). eqv d1 d2)
           (zip (butlast (map snd (iterclass_DelimitedDetector (detectors options))))
                (tl (map snd (iterclass_DelimitedDetector (detectors options)))))"
  shows "\<exists>w'. export_detectors eqv options w = Inr w'"
proof -
  from Exporter_export_detectors_succeeds[OF assms(1)]
  obtain w1 where "Exporter_export_detectors options (detectors options)
      (deactivate_all_detectors w) = Inr w1"
    by blast
  with assms(2) show ?thesis
    by (simp add: export_detectors_def detector_position_def Let_def)
qed

lemma export_wxroptions_succeeds:
  assumes "list_all (\<lambda>(nm, d). nonzero_channels d) (detectors options)"
    and "list_all (\<lambda>(d1, d2). eqv d1 d2)
           (zip (butlast (map snd (iterclass_DelimitedDetector (detectors options))))
                (tl (map snd (iterclass_DelimitedDetector (detectors options)))))"
    and "set (models options) \<subseteq> set supported_models"
  shows "\<exists>wxrops warnings. export_wxroptions new eqv options dirpath = Inr (wxrops, warnings)"
proof -
  let ?w0 = "(case dirpath of None \<Rightarrow> new | Some p \<Rightarrow> new\<lparr>ResultsPath := Some p\<rparr>)
      \<lparr>SaveFile := True\<rparr>"
  let ?w2 = "?w0\<lparr>MultiEnergy := False,
             IncidentEnergy_keV := energy_eV (beam options) / 1000,
             StartEnergy_keV := energy_eV (beam options) / 1000,
             EndEnergy_keV := energy_eV (beam options) / 1000,
             StepEnergy_keV := 1, NbStepEnergy := 1,
             BeamDiameter_nm := diameter_m (beam options) * 1000000000,
             Elements := (map fst (composition (body_material (geometry options))),
                          map snd (composition (body_material (geometry options)))),
             MinimumElectronEnergy_eV :=
               absorption_energy_electron_eV (body_material (geometry options))\<rparr>"
  from export_detectors_succeeds[OF assms(1,2)]
  obtain w3 where 1: "export_detectors eqv options ?w2 = Inr w3" by blast
  obtain w4 where 2: "export_limits options (limits options) w3 = Inr w4"
    unfolding export_limits_eq by blast
  from export_models_succeeds[OF assms(3)]
  obtain w5 where 3: "export_models options (models options) w4 = Inr w5" by blast
  have "\<exists>ws. run_exporters eqv options (?w0, []) = Inr (w5, ws)"
    unfolding run_exporters_eq by (simp add: 1 2 3)
  then show ?thesis
    by (auto simp: export_wxroptions_def Let_def)
qed

lemma example_Options_exported:
  "\<exists>wxrops warnings.
     export_wxroptions example_OptionsFile same_opening example_Options dirpath
       = Inr (wxrops, warnings)"
proof (rule export_wxroptions_succeeds)
  show "list_all (\<lambda>(nm, d). nonzero_channels d) (detectors example_Options)"
    by (simp add: example_Options_def)
  show "list_all (\<lambda>(d1, d2). same_opening d1 d2)
           (zip (butlast (map snd (iterclass_DelimitedDetector (detectors example_Options))))
                (tl (map snd (iterclass_DelimitedDetector (detectors example_Options)))))"
    by (simp add: example_Options_def iterclass_DelimitedDetector_def same_opening_def)
  show "set (models example_Options) \<subseteq> set supported_models"
    by (simp add: example_Options_def supported_models_def random_number_generator_types_def)
qed

subsection \<open>Unit conversions\<close>

text \<open>
  C5. In the record of a successful export, the incident, start and end energies are the
  beam energy in eV divided by 1000, the beam diameter is the diameter in m multiplied by
  \<open>10 ^ 9\<close>, and, when the options hold a delimited detector, the take-off angle and
  the angle phi are the take-off angle and the mean azimuth of the first delimited
  detector, in radians, multiplied by \<open>180 / pi\<close> (the angle theta is 90 minus that
  take-off angle in degrees). Floating point numbers are read as real numbers, on which
  the conversions are exact.
\<close>

theorem unit_conversions:
  assumes "export_wxroptions new equivalent_opening options dirpath = Inr (wxrops, warnings)"
  shows "IncidentEnergy_keV wxrops = energy_eV (beam options) / 1000
    \<and> StartEnergy_keV wxrops = energy_eV (beam options) / 1000
    \<and> EndEnergy_keV wxrops = energy_eV (beam options) / 1000
    \<and> BeamDiameter_nm wxrops = diameter_m (beam options) * 10 ^ 9
    \<and> (\<forall>d ds. map snd (iterclass_DelimitedDetector (detectors options)) = d # ds \<longrightarrow>
          TOA_deg wxrops = takeoffangle_rad (delim d) * (180 / pi)
        \<and> AngleThetaDetector_deg wxrops = 90 - takeoffangle_rad (delim d) * (180 / pi)
        \<and> AnglePhiDetector_deg wxrops
            = (fst (azimuth_rad (delim d)) + snd (azimuth_rad (delim d))) / 2 * (180 / pi))"
proof -
  from assms obtain w2 w3 w4 where
    b: "IncidentEnergy_keV w2 = energy_eV (beam options) / 1000"
       "StartEnergy_keV w2 = energy_eV (beam options) / 1000"
       "EndEnergy_keV w2 = energy_eV (beam options) / 1000"
       "BeamDiameter_nm w2 = diameter_m (beam options) * 1000000000"
    and d: "export_detectors equivalent_opening options w2 = Inr w3"
    and l: "w4 = (if limits options = [] then w3
               else w3\<lparr>NbElectron := showers (last (limits options))\<rparr>)"
    and m: "export_models options (models options) w4 = Inr wxrops"
    by (rule export_wxroptions_Inr)
  note f = export_models_frame[OF m]
  note e = export_detectors_beam_fields[OF d]
  have "IncidentEnergy_keV wxrops = IncidentEnergy_keV w4"
    using arg_cong[OF f, of IncidentEnergy_keV] by (simp add: clear_model_fields_def)
  with l e(1) b(1) have 1: "IncidentEnergy_keV wxrops = energy_eV (beam options) / 1000"
    by simp
  have "StartEnergy_keV wxrops = StartEnergy_keV w4"
    using arg_cong[OF f, of StartEnergy_keV] by (simp add: clear_model_fields_def)
  with l e(2) b(2) have 2: "StartEnergy_keV wxrops = energy_eV (beam options) / 1000"
    by simp
  have "EndEnergy_keV wxrops = EndEnergy_keV w4"
    using arg_cong[OF f, of EndEnergy_keV] by (simp add: clear_model_fields_def)
  with l e(3) b(3) have 3: "EndEnergy_keV wxrops = energy_eV (beam options) / 1000"
    by simp
  have "BeamDiameter_nm wxrops = BeamDiameter_nm w4"
    using arg_cong[OF f, of BeamDiameter_nm] by (simp add: clear_model_fields_def)
  with l e(4) b(4) have 4: "BeamDiameter_nm wxrops = diameter_m (beam options) * 10 ^ 9"
    by simp
  have t: "TOA_deg wxrops = TOA_deg w3"
    using arg_cong[OF f, of TOA_deg] l by (simp add: clear_model_fields_def)
  have th: "AngleThetaDetector_deg wxrops = AngleThetaDetector_deg w3"
    using arg_cong[OF f, of AngleThetaDetector_deg] l by (simp add: clear_model_fields_def)
  have ph: "AnglePhiDetector_deg wxrops = AnglePhiDetector_deg w3"
    using arg_cong[OF f, of AnglePhiDetector_deg] l by (simp add: clear_model_fields_def)
  have 5: "TOA_deg wxrops = takeoffangle_rad (delim d) * (180 / pi)
        \<and> AngleThetaDetector_deg wxrops = 90 - takeoffangle_rad (delim d) * (180 / pi)
        \<and> AnglePhiDetector_deg wxrops
            = (fst (azimuth_rad (delim d)) + snd (azimuth_rad (delim d))) / 2 * (180 / pi)"
    if "map snd (iterclass_DelimitedDetector (detectors options)) = d # ds" for d ds
    using export_detectors_position[OF \<open>export_detectors equivalent_opening options w2 = Inr w3\<close> that]
      t th ph
    by (simp add: degrees_def)
  from 1 2 3 4 5 show ?thesis by blast
qed

text \<open>
  The example options: 1234 eV is 1.234 keV, \<open>10\<^sup>-\<^sup>8\<close> m is 10 nm, a take-off angle of
  \<open>pi / 4\<close> is 45 degrees and an azimuth from 0 to \<open>pi\<close> has the mean 90 degrees.
\<close>

theorem unit_conversions_witness:
  "\<exists>wxrops warnings.
     export_wxroptions example_OptionsFile same_opening example_Options None
       = Inr (wxrops, warnings)
     \<and> IncidentEnergy_keV wxrops = 1.234 \<and> StartEnergy_keV wxrops = 1.234
     \<and> EndEnergy_keV wxrops = 1.234 \<and> BeamDiameter_nm wxrops = 10
     \<and> TOA_deg wxrops = 45 \<and> AngleThetaDetector_deg wxrops = 45
     \<and> AnglePhiDetector_deg wxrops = 90"
proof -
  from example_Options_exported[of None] obtain wxrops warnings where
    e: "export_wxroptions example_OptionsFile same_opening example_Options None
       = Inr (wxrops, warnings)"
    by blast
  have dets: "map snd (iterclass_DelimitedDetector (detectors example_Options))
      = PhotonDepthDetector example_opening 1000 # [PhotonIntensityDetector example_opening]"
    by (simp add: example_Options_def iterclass_DelimitedDetector_def)
  from unit_conversions[OF e] dets have "IncidentEnergy_keV wxrops = 1.234 \<and> StartEnergy_keV wxrops = 1.234
     \<and> EndEnergy_keV wxrops = 1.234 \<and> BeamDiameter_nm wxrops = 10
     \<and> TOA_deg wxrops = 45 \<and> AngleThetaDetector_deg wxrops = 45
     \<and> AnglePhiDetector_deg wxrops = 90"
    by (simp add: example_Options_def example_opening_def)
  with e show ?thesis by blast
qed

subsection \<open>The showers limit\<close>

text \<open>
  C7. In the record of a successful export of options that carry a showers limit, the
  number of electrons is the showers value of that limit, unchanged. (The limits are
  exported in order, so of several showers limits the last one is stored.)
\<close>

theorem showers_copied:
  assumes "export_wxroptions new equivalent_opening options dirpath = Inr (wxrops, warnings)"
    and "limits options \<noteq> []"
  shows "NbElectron wxrops = showers (last (limits options))"
proof -
  from assms(1) obtain w3 w4 where
    l: "w4 = (if limits options = [] then w3
               else w3\<lparr>NbElectron := showers (last (limits options))\<rparr>)"
    and m: "export_models options (models options) w4 = Inr wxrops"
    by (rule export_wxroptions_Inr)
  have "NbElectron wxrops = NbElectron w4"
    using arg_cong[OF export_models_frame[OF m], of NbElectron]
    by (simp add: clear_model_fields_def)
  with l assms(2) show ?thesis by simp
qed

text \<open>The example options carry the showers limit 5678.\<close>

theorem showers_copied_witness:
  "limits example_Options \<noteq> []
   \<and> (\<exists>wxrops warnings.
        export_wxroptions example_OptionsFile same_opening example_Options None
          = Inr (wxrops, warnings)
        \<and> NbElectron wxrops = 5678)"
proof -
  have n: "limits example_Options \<noteq> []"
    by (simp add: example_Options_def)
  from example_Options_exported[of None] obtain wxrops warnings where
    e: "export_wxroptions example_OptionsFile same_opening example_Options None
       = Inr (wxrops, warnings)"
    by blast
  from showers_copied[OF e n] have "NbElectron wxrops = 5678"
    by (simp add: example_Options_def)
  with n e show ?thesis by blast
qed

subsection \<open>One record for equivalent openings\<close>











subsection \<open>The file written\<close>

text \<open>
  C8. A successful export to a directory writes one file, at the path that joins the
  directory and the name of the options followed by \<open>.wxc\<close>; the file holds the record
  of the export, and the path is returned.
\<close>

theorem export_writes_one_file:
  assumes "export os_path_join new equivalent_opening options dirpath files
             = Inr (filepath, files', warnings)"
  shows "filepath = os_path_join dirpath (name options @ ''.wxc'')
    \<and> (\<exists>wxrops. files' = files @ [(filepath, wxrops)]
          \<and> export_wxroptions new equivalent_opening options (Some dirpath)
              = Inr (wxrops, warnings))"
  using assms by (auto simp: export_def and_then_eq_Inr Let_def)

text \<open>The example options, named Test, exported to \<open>/tmp/sim\<close> on an empty file system.\<close>

theorem export_writes_one_file_witness:
  "\<exists>wxrops warnings.
     export posix_join example_OptionsFile same_opening example_Options ''/tmp/sim'' []
       = Inr (''/tmp/sim/Test.wxc'', [(''/tmp/sim/Test.wxc'', wxrops)], warnings)"
proof -
  from example_Options_exported[of "Some ''/tmp/sim''"] obtain wxrops warnings where
    e: "export_wxroptions example_OptionsFile same_opening example_Options (Some ''/tmp/sim'')
       = Inr (wxrops, warnings)"
    by blast
  then obtain filepath files' where
    x: "export posix_join example_OptionsFile same_opening example_Options ''/tmp/sim'' []
       = Inr (filepath, files', warnings)"
    by (simp add: export_def Let_def)
  from export_writes_one_file[OF x] e have "filepath = ''/tmp/sim/Test.wxc''"
    and "files' = [(''/tmp/sim/Test.wxc'', wxrops)]"
    by (simp_all add: posix_join_def example_Options_def)
  with x show ?thesis by blast
qed

subsection \<open>What the exports read of the options\<close>

lemma detector_exporter_options:
  assumes "energy_eV (beam o1) = energy_eV (beam o2)"
    and "detector_exporters d = Some exporter"
  shows "exporter o1 nm d w = exporter o2 nm d w"
  using assms(2) by (cases d) (auto simp: detector_method_defs assms(1) Let_def)

lemma Exporter_export_detectors_options:
  assumes "energy_eV (beam o1) = energy_eV (beam o2)"
  shows "Exporter_export_detectors o1 ds w = Exporter_export_detectors o2 ds w"
proof (induction ds arbitrary: w)
  case Nil
  show ?case by simp
next
  case (Cons a ds)
  obtain nm d where a: "a = (nm, d)" by (cases a)
  show ?case
  proof (cases "detector_exporters d")
    case None
    with Cons a show ?thesis by simp
  next
    case (Some exporter)
    from detector_exporter_options[OF assms Some]
    have "exporter o1 nm d w = exporter o2 nm d w" .
    with Cons.IH a Some show ?thesis
      by (cases "exporter o2 nm d w") simp_all
  qed
qed

lemma export_detectors_options:
  assumes "energy_eV (beam o1) = energy_eV (beam o2)" and "detectors o1 = detectors o2"
  shows "export_detectors eqv o1 w = export_detectors eqv o2 w"
proof -
  have "detector_position eqv o1 = detector_position eqv o2"
    using assms(2) by (simp add: detector_position_def fun_eq_iff)
  with Exporter_export_detectors_options[OF assms(1)] assms(2) show ?thesis
    by (simp add: export_detectors_def)
qed

lemma export_models_options:
  "export_models o1 ms w = export_models o2 ms w"
proof (induction ms arbitrary: w)
  case Nil
  show ?case by simp
next
  case (Cons m ms)
  obtain ty nm where m: "m = Model ty nm" by (cases m)
  have "model_exporters ty o1 (Model ty nm) w = model_exporters ty o2 (Model ty nm) w"
    by (cases ty)
       (simp_all add: model_elastic_cross_section_def model_ionization_cross_section_def
          model_ionization_potential_def model_random_number_generator_def
          model_direction_cosine_def model_energy_loss_def
          model_mass_absorption_coefficient_def)
  with Cons.IH m show ?case
    by (cases "model_exporters ty o2 (Model ty nm) w") simp_all
qed

lemma map_sum_fst_and_then3:
  "map_sum id fst
     (and_then r (\<lambda>w3. and_then (g w3) (\<lambda>w4. and_then (h w4) (\<lambda>w5. Inr (w5, c)))))
   = and_then r (\<lambda>w3. and_then (g w3) h)"
proof (cases r)
  case (Inl e)
  then show ?thesis by simp
next
  case (Inr w3)
  show ?thesis
  proof (cases "g w3")
    case (Inl e)
    with Inr show ?thesis by simp
  next
    case g: (Inr w4)
    with Inr show ?thesis by (cases "h w4") simp_all
  qed
qed

subsection \<open>Unsupported features\<close>

text \<open>
  C6. A beam origin other than zero, a sample tilt, a sample rotation and a density of
  the user do not turn the export into an error and do not change the record: the
  outcome of the export, the error or the record, is the one for the same options with
  the beam at the origin, without tilt and rotation and with any other density. When the
  export succeeds, its warnings hold the message on the beam position if the origin is not
  zero, the message on the tilt if the tilt is not zero, the message on the rotation if
  the rotation is not zero, and the message on the density (which is emitted for every
  density).
\<close>

theorem unsupported_features_warn:
  fixes options :: Options and density :: real
  defines "plain \<equiv> options
     \<lparr>beam := (beam options)\<lparr>origin_m := (0, 0, 0)\<rparr>,
      geometry := (geometry options)
        \<lparr>tilt_rad := 0, rotation_rad := 0,
         body_material := (body_material (geometry options))\<lparr>density_kg_m3 := density\<rparr>\<rparr>\<rparr>"
  shows "map_sum id fst (export_wxroptions new equivalent_opening options dirpath)
           = map_sum id fst (export_wxroptions new equivalent_opening plain dirpath)
    \<and> (\<forall>wxrops warnings.
          export_wxroptions new equivalent_opening options dirpath = Inr (wxrops, warnings) \<longrightarrow>
            (origin_m (beam options) \<noteq> (0, 0, 0) \<longrightarrow>
               ''No beam position in WinX-Ray'' \<in> set warnings)
          \<and> (tilt_rad (geometry options) \<noteq> 0 \<longrightarrow>
               ''WinXRay does not support sample tilt. Use beam tilt instead.''
                 \<in> set warnings)
          \<and> (rotation_rad (geometry options) \<noteq> 0 \<longrightarrow>
               ''WinXRay does not support sample rotation.'' \<in> set warnings)
          \<and> ''WinXRay does not support user defined density'' \<in> set warnings)"
proof -
  have e: "energy_eV (beam options) = energy_eV (beam plain)"
    and d: "detectors options = detectors plain"
    and l: "limits options = limits plain"
    and m: "models options = models plain"
    and dm: "diameter_m (beam options) = diameter_m (beam plain)"
    and c: "composition (body_material (geometry options))
        = composition (body_material (geometry plain))"
    and a: "absorption_energy_electron_eV (body_material (geometry options))
        = absorption_energy_electron_eV (body_material (geometry plain))"
    by (simp_all add: plain_def)
  have same: "map_sum id fst (run_exporters equivalent_opening options (w, []))
      = map_sum id fst (run_exporters equivalent_opening plain (w, []))" for w
    unfolding run_exporters_eq map_sum_fst_and_then3
    unfolding e[symmetric] d[symmetric] l[symmetric] m[symmetric] dm[symmetric]
      c[symmetric] a[symmetric]
    unfolding export_detectors_options[OF e d] export_limits_eq
      export_models_options[of options _ _ plain]
    by (rule refl)
  have 1: "map_sum id fst (export_wxroptions new equivalent_opening options dirpath)
           = map_sum id fst (export_wxroptions new equivalent_opening plain dirpath)"
    unfolding export_wxroptions_def Let_def by (rule same)
  have 2: "(origin_m (beam options) \<noteq> (0, 0, 0) \<longrightarrow>
               ''No beam position in WinX-Ray'' \<in> set warnings)
          \<and> (tilt_rad (geometry options) \<noteq> 0 \<longrightarrow>
               ''WinXRay does not support sample tilt. Use beam tilt instead.''
                 \<in> set warnings)
          \<and> (rotation_rad (geometry options) \<noteq> 0 \<longrightarrow>
               ''WinXRay does not support sample rotation.'' \<in> set warnings)
          \<and> ''WinXRay does not support user defined density'' \<in> set warnings"
    if "export_wxroptions new equivalent_opening options dirpath = Inr (wxrops, warnings)"
    for wxrops warnings
  proof -
    from that obtain w2 w3 w4 :: OptionsFile where "warnings =
           (if origin_m (beam options) \<noteq> (0, 0, 0)
            then [''No beam position in WinX-Ray''] else [])
           @ [''WinXRay does not support user defined density'']
           @ (if tilt_rad (geometry options) \<noteq> 0
              then [''WinXRay does not support sample tilt. Use beam tilt instead.'']
              else [])
           @ (if rotation_rad (geometry options) \<noteq> 0
              then [''WinXRay does not support sample rotation.''] else [])"
      by (rule export_wxroptions_Inr)
    then show ?thesis by simp
  qed
  from 1 2 show ?thesis by blast
qed

text \<open>
  The example options with the beam moved, the sample tilted and rotated and another
  density: the four warnings, and the record of the example options.
\<close>

theorem unsupported_features_warn_witness:
  "\<exists>wxrops warnings.
     export_wxroptions example_OptionsFile same_opening
       (example_Options
        \<lparr>beam := (beam example_Options)\<lparr>origin_m := (1, 0, 0)\<rparr>,
         geometry := (geometry example_Options)
           \<lparr>tilt_rad := 1 / 10, rotation_rad := 1 / 5,
            body_material :=
              (body_material (geometry example_Options))\<lparr>density_kg_m3 := 7000\<rparr>\<rparr>\<rparr>) None = Inr (wxrops, warnings)
     \<and> ''No beam position in WinX-Ray'' \<in> set warnings
     \<and> ''WinXRay does not support sample tilt. Use beam tilt instead.'' \<in> set warnings
     \<and> ''WinXRay does not support sample rotation.'' \<in> set warnings
     \<and> ''WinXRay does not support user defined density'' \<in> set warnings
     \<and> map_sum id fst
          (export_wxroptions example_OptionsFile same_opening example_Options None)
         = Inr wxrops"
proof -
  let ?tilted = "(example_Options
        \<lparr>beam := (beam example_Options)\<lparr>origin_m := (1, 0, 0)\<rparr>,
         geometry := (geometry example_Options)
           \<lparr>tilt_rad := 1 / 10, rotation_rad := 1 / 5,
            body_material :=
              (body_material (geometry example_Options))\<lparr>density_kg_m3 := 7000\<rparr>\<rparr>\<rparr>)"
  have "\<exists>wxrops warnings.
      export_wxroptions example_OptionsFile same_opening ?tilted None = Inr (wxrops, warnings)"
  proof (rule export_wxroptions_succeeds)
    show "list_all (\<lambda>(nm, d). nonzero_channels d) (detectors ?tilted)"
      by (simp add: example_Options_def)
    show "list_all (\<lambda>(d1, d2). same_opening d1 d2)
           (zip (butlast (map snd (iterclass_DelimitedDetector (detectors ?tilted))))
                (tl (map snd (iterclass_DelimitedDetector (detectors ?tilted)))))"
      by (simp add: example_Options_def iterclass_DelimitedDetector_def same_opening_def)
    show "set (models ?tilted) \<subseteq> set supported_models"
      by (simp add: example_Options_def supported_models_def
          random_number_generator_types_def)
  qed
  then obtain wxrops warnings where
    e: "export_wxroptions example_OptionsFile same_opening ?tilted None
          = Inr (wxrops, warnings)"
    by blast
  have plain: "?tilted
     \<lparr>beam := (beam ?tilted)\<lparr>origin_m := (0, 0, 0)\<rparr>,
      geometry := (geometry ?tilted)
        \<lparr>tilt_rad := 0, rotation_rad := 0,
         body_material := (body_material (geometry ?tilted))\<lparr>density_kg_m3 := 8960\<rparr>\<rparr>\<rparr>
     = example_Options"
    by (simp add: example_Options_def)
  have o: "origin_m (beam ?tilted) \<noteq> (0, 0, 0)"
    and t: "tilt_rad (geometry ?tilted) \<noteq> 0"
    and r: "rotation_rad (geometry ?tilted) \<noteq> 0"
    by simp_all
  note c = unsupported_features_warn[of example_OptionsFile same_opening ?tilted None 8960]
  from c have "map_sum id fst
      (export_wxroptions example_OptionsFile same_opening ?tilted None)
     = map_sum id fst
      (export_wxroptions example_OptionsFile same_opening example_Options None)"
    unfolding plain by (rule conjunct1)
  with e have 1: "map_sum id fst
          (export_wxroptions example_OptionsFile same_opening example_Options None)
         = Inr wxrops"
    by simp
  from c e o t r have 2: "''No beam position in WinX-Ray'' \<in> set warnings
     \<and> ''WinXRay does not support sample tilt. Use beam tilt instead.'' \<in> set warnings
     \<and> ''WinXRay does not support sample rotation.'' \<in> set warnings
     \<and> ''WinXRay does not support user defined density'' \<in> set warnings"
    by blast
  from e 1 2 show ?thesis by blast
qed

end
